theory Spec2Isabelle
  imports Complex_Main "HOL-Library.Sublist"
begin

section \<open>Python strings and numbers\<close>

text \<open>
  A Python \<open>str\<close> is modelled as a \<open>string\<close>, one \<open>char\<close> per code point (code points
  below 256, which covers every literal of \<open>server.py\<close>); \<open>len\<close> is \<open>length\<close>, a slice
  \<open>s[:n]\<close> is \<open>take n s\<close> and \<open>s[n:]\<close> is \<open>drop n s\<close>. A Python number (an \<open>int\<close> or the
  value a \<open>float\<close> denotes) that takes part in \<open>//\<close>, \<open>%\<close> or \<open>int()\<close> is a \<open>real\<close>.
\<close>

definition is_space :: "char \<Rightarrow> bool" where
  \<comment> \<open>\<open>str.isspace\<close> on the code points below 256\<close>
  "is_space c = (c \<in> set [CHR 0x09, CHR 0x0A, CHR 0x0B, CHR 0x0C, CHR 0x0D,
       CHR 0x1C, CHR 0x1D, CHR 0x1E, CHR 0x1F, CHR 0x20, CHR 0x85, CHR 0xA0])"

definition strip :: "string \<Rightarrow> string" where
  \<comment> \<open>\<open>s.strip()\<close>\<close>
  "strip s = rev (dropWhile is_space (rev (dropWhile is_space s)))"

fun join :: "string \<Rightarrow> string list \<Rightarrow> string" where
  \<comment> \<open>\<open>sep.join(xs)\<close>\<close>
  "join sep [] = []"
| "join sep [x] = x"
| "join sep (x # y # ys) = x @ sep @ join sep (y # ys)"

definition digit :: "nat \<Rightarrow> char" where
  "digit d = ''0123456789'' ! (d mod 10)"

function nat_digits :: "nat \<Rightarrow> string" where
  "nat_digits n = (if n < 10 then [digit n] else nat_digits (n div 10) @ [digit (n mod 10)])"
  by pat_completeness auto
termination
  by (relation "measure id") auto

declare nat_digits.simps [simp del]

definition str_int :: "int \<Rightarrow> string" where
  \<comment> \<open>\<open>str(n)\<close>, also \<open>f"{n}"\<close>, of an \<open>int\<close>\<close>
  "str_int n = (if n < 0 then CHR ''-'' # nat_digits (nat (- n)) else nat_digits (nat n))"

definition format_02d :: "int \<Rightarrow> string" where
  \<comment> \<open>\<open>f"{n:02d}"\<close>: zeros after the sign up to a width of two, never cut\<close>
  "format_02d n = (let s = str_int n in
     if length s < 2 then replicate (2 - length s) CHR ''0'' @ s else s)"

definition py_floordiv :: "real \<Rightarrow> real \<Rightarrow> real" where
  \<comment> \<open>\<open>x // y\<close> for \<open>y > 0\<close>\<close>
  "py_floordiv x y = of_int \<lfloor>x / y\<rfloor>"

definition py_mod :: "real \<Rightarrow> real \<Rightarrow> real" where
  \<comment> \<open>\<open>x % y\<close> for \<open>y > 0\<close>\<close>
  "py_mod x y = x - y * of_int \<lfloor>x / y\<rfloor>"

definition py_int :: "real \<Rightarrow> int" where
  \<comment> \<open>\<open>int(x)\<close>: truncation towards zero\<close>
  "py_int x = (if 0 \<le> x then \<lfloor>x\<rfloor> else \<lceil>x\<rceil>)"

definition py_round :: "real \<Rightarrow> int" where
  \<comment> \<open>\<open>round(x)\<close>: to the nearest integer, a tie to the even one\<close>
  "py_round x = (let f = \<lfloor>x\<rfloor>; d = x - of_int f in
     if d < 1 / 2 then f else if 1 / 2 < d then f + 1 else if even f then f else f + 1)"

definition round2 :: "real \<Rightarrow> real" where
  \<comment> \<open>\<open>round(x, 2)\<close>\<close>
  "round2 x = of_int (py_round (x * 100)) / 100"

text \<open>
  A raised exception is a value. \<open>ValueError\<close> carries the offending (trimmed) input, which
  its message quotes; \<open>RuntimeError\<close> carries its message; \<open>ExternalError\<close> is an exception
  raised inside a library (the captioning client, \<open>subprocess\<close>, \<open>json\<close>, \<open>urllib\<close>) and
  carries \<open>str(e)\<close>.
\<close>

datatype exc = ValueError string | RuntimeError string | ExternalError string

fun str_exc :: "exc \<Rightarrow> string" where
  \<comment> \<open>\<open>str(e)\<close> of an exception a caption backend raises\<close>
  "str_exc (ValueError s) = s"
| "str_exc (RuntimeError msg) = msg"
| "str_exc (ExternalError msg) = msg"

section \<open>Data model\<close>

text \<open>
  The dictionaries of \<open>server.py\<close>, with the keys their construction sites give them. A key
  that a site leaves out, or sets to \<open>None\<close>, is \<open>None\<close> here: \<open>metadata.get(k)\<close> is falsy in
  both cases. \<open>title\<close>, \<open>author\<close>, \<open>language\<close> and \<open>source\<close> are set at every site, so the
  defaults of \<open>.get(k, "Unknown")\<close> in the document builder are never taken.
\<close>

record entry =
  entry_text :: string
  start :: real
  duration :: real

record transcript_info =
  entries :: "entry list"
  language :: string
  source :: string

record metadata =
  title :: string
  author :: string
  channel_url :: "string option"
  upload_date :: "string option"
  duration_seconds :: "real option"
  description :: "string option"
  view_count :: "int option"
  video_id :: string

section \<open>\<open>_extract_video_id\<close>\<close>

text \<open>
  The pattern
  \<^verbatim>\<open>(?:youtube\.com/watch\?.*v=|youtu\.be/|youtube\.com/embed/|youtube\.com/v/|youtube\.com/shorts/)([a-zA-Z0-9_-]{11})\<close>
  under \<open>re.search\<close>: the leftmost start position wins, at one position the alternatives are
  tried in their order, and the greedy \<open>.*\<close> (any characters but a newline) first takes
  all it can and then gives back one character at a time. Each function returns group 1.
\<close>

definition id_char :: "char \<Rightarrow> bool" where
  \<comment> \<open>the class \<open>[a-zA-Z0-9_-]\<close>\<close>
  "id_char c = (c \<in> set ''abcdefghijklmnopqrstuvwxyzABCDEFGHIJKLMNOPQRSTUVWXYZ0123456789_-'')"

definition id_group :: "string \<Rightarrow> string option" where
  \<comment> \<open>\<open>([a-zA-Z0-9_-]{11})\<close> at the head of \<open>s\<close>\<close>
  "id_group s =
     (if 11 \<le> length s \<and> list_all id_char (take 11 s) then Some (take 11 s) else None)"

definition after_literal :: "string \<Rightarrow> string \<Rightarrow> string option" where
  \<comment> \<open>a literal, then the group\<close>
  "after_literal lit s = (if prefix lit s then id_group (drop (length lit) s) else None)"

fun watch_tail :: "string \<Rightarrow> string option" where
  \<comment> \<open>\<open>.*v=([a-zA-Z0-9_-]{11})\<close>: the longer run of \<open>.*\<close> is tried before the shorter\<close>
  "watch_tail [] = after_literal ''v='' []"
| "watch_tail (c # cs) =
     (case (if c \<noteq> CHR 0x0A then watch_tail cs else None) of
        Some g \<Rightarrow> Some g
      | None \<Rightarrow> after_literal ''v='' (c # cs))"

definition watch_alternative :: "string \<Rightarrow> string option" where
  "watch_alternative s =
     (if prefix ''youtube.com/watch?'' s
      then watch_tail (drop (length ''youtube.com/watch?'') s)
      else None)"

fun first_match :: "string option list \<Rightarrow> string option" where
  "first_match [] = None"
| "first_match (Some g # alts) = Some g"
| "first_match (None # alts) = first_match alts"

definition match_here :: "string \<Rightarrow> string option" where
  \<comment> \<open>the pattern anchored at the head of \<open>s\<close>\<close>
  "match_here s = first_match
     [watch_alternative s,
      after_literal ''youtu.be/'' s,
      after_literal ''youtube.com/embed/'' s,
      after_literal ''youtube.com/v/'' s,
      after_literal ''youtube.com/shorts/'' s]"

fun re_search :: "string \<Rightarrow> string option" where
  \<comment> \<open>\<open>re.search(pattern, s)\<close>, \<open>None\<close> when nothing matches\<close>
  "re_search [] = match_here []"
| "re_search (c # cs) =
     (case match_here (c # cs) of Some g \<Rightarrow> Some g | None \<Rightarrow> re_search cs)"

definition bare_id :: "string \<Rightarrow> bool" where
  \<comment> \<open>\<open>re.fullmatch(r"[a-zA-Z0-9_-]{11}", s)\<close>\<close>
  "bare_id s = (length s = 11 \<and> list_all id_char s)"

definition extract_video_id :: "string \<Rightarrow> exc + string" where
  "extract_video_id url_or_id =
     (let s = strip url_or_id in
      case re_search s of
        Some g \<Rightarrow> Inr g
      | None \<Rightarrow> if bare_id s then Inr s else Inl (ValueError s))"

section \<open>\<open>_format_transcript_text\<close>\<close>

fun format_loop :: "entry list \<Rightarrow> bool \<Rightarrow> string list \<Rightarrow> string list" where
  \<comment> \<open>the \<open>for e in entries\<close> loop; the third argument is \<open>lines\<close>\<close>
  "format_loop [] include_timestamps lines = lines"
| "format_loop (e # es) include_timestamps lines =
     (let text = strip (entry_text e) in
      if text = [] then format_loop es include_timestamps lines
      else if include_timestamps then
        (let minutes = py_int (py_floordiv (start e) 60);
             seconds = py_int (py_mod (start e) 60)
         in format_loop es include_timestamps
              (lines @ [''['' @ format_02d minutes @ '':'' @ format_02d seconds @ ''] '' @ text]))
      else format_loop es include_timestamps (lines @ [text]))"

definition format_transcript_text :: "entry list \<Rightarrow> bool \<Rightarrow> string" where
  "format_transcript_text es include_timestamps =
     join ''\<newline>'' (format_loop es include_timestamps [])"

section \<open>\<open>_build_markdown_output\<close>\<close>

definition MAX_TRANSCRIPT_CHARS :: nat where
  "MAX_TRANSCRIPT_CHARS = 200000"

definition truncation_marker :: string where
  "truncation_marker = ''\<newline>\<newline>[... transcript truncated due to length ...]''"

definition watch_url :: "string \<Rightarrow> string" where
  "watch_url vid = ''https://www.youtube.com/watch?v='' @ vid"

definition upload_date_field :: "string \<Rightarrow> string" where
  "upload_date_field d =
     (if length d = 8
      then ''upload_date: '' @ take 4 d @ ''-'' @ take 2 (drop 4 d) @ ''-'' @ drop 6 d
      else ''upload_date: '' @ d)"

definition duration_field :: "real \<Rightarrow> string" where
  "duration_field x = (let n = py_int x; m = n div 60; s = n mod 60
     in ''duration: '' @ str_int m @ ''m'' @ str_int s @ ''s'')"

definition frontmatter_fields :: "metadata \<Rightarrow> transcript_info \<Rightarrow> string \<Rightarrow> string list" where
  \<open>frontmatter_fields m info vid =
     [''title: "'' @ title m @ ''"'',
      ''author: "'' @ author m @ ''"'',
      ''url: '' @ watch_url vid,
      ''video_id: '' @ vid,
      ''transcript_language: '' @ language info,
      ''transcript_source: '' @ source info]
     @ (case upload_date m of
          None \<Rightarrow> []
        | Some d \<Rightarrow> if d \<noteq> [] then [upload_date_field d] else [])
     @ (case duration_seconds m of
          None \<Rightarrow> []
        | Some x \<Rightarrow> if x \<noteq> 0 then [duration_field x] else [])\<close>

definition description_section :: "metadata \<Rightarrow> string" where
  "description_section m =
     (case description m of
        None \<Rightarrow> []
      | Some d \<Rightarrow> if d \<noteq> [] then ''\<newline>## Description\<newline>\<newline>'' @ d @ ''\<newline>'' else [])"

definition assemble_output :: "metadata \<Rightarrow> string \<Rightarrow> transcript_info \<Rightarrow> string \<Rightarrow> string" where
  \<comment> \<open>the value of \<open>output\<close> before the truncation\<close>
  "assemble_output m transcript_text info vid =
     (''---\<newline>'' @ join ''\<newline>'' (frontmatter_fields m info vid) @ ''\<newline>---'')
     @ ''\<newline>'' @ description_section m
     @ ''\<newline>## Transcript\<newline>\<newline>'' @ transcript_text @ ''\<newline>''"

definition build_markdown_output :: "metadata \<Rightarrow> string \<Rightarrow> transcript_info \<Rightarrow> string \<Rightarrow> string" where
  "build_markdown_output m transcript_text info vid =
     (let output = assemble_output m transcript_text info vid in
      if length output > MAX_TRANSCRIPT_CHARS
      then take MAX_TRANSCRIPT_CHARS output @ truncation_marker
      else output)"

section \<open>External interfaces\<close>

text \<open>
  What the code calls outside the repository is a parameter of the model, gathered in the
  record \<open>world\<close>: the captioning client, \<open>shutil.which\<close>, the two \<open>yt-dlp\<close> invocations, the
  HTTP fetch, \<open>html.unescape\<close> and \<open>repr\<close> of a list of strings. A parsed JSON document is
  given with the fields the code reads, typed as the specification lists them; a file or an
  output that \<open>json\<close> rejects is \<open>Malformed\<close> with the decoder's message.
\<close>

record transcript =
  language_code :: string
  is_generated :: bool
  fetch :: "exc + entry list"

fun find_transcript :: "bool \<Rightarrow> transcript list \<Rightarrow> string list \<Rightarrow> transcript option" where
  \<comment> \<open>Modelled from the spec: the captioning client's per-language lookup among the manual
     (or among the generated) transcripts of a video, absent from the repository; \<open>None\<close>
     is its \<open>NoTranscriptFound\<close>. The transcript list is kept in the order the client
     iterates it.\<close>
  "find_transcript gen tlist [] = None"
| "find_transcript gen tlist (code # codes) =
     (case find (\<lambda>t. is_generated t = gen \<and> language_code t = code) tlist of
        Some t \<Rightarrow> Some t
      | None \<Rightarrow> find_transcript gen tlist codes)"

definition find_manually_created_transcript :: "transcript list \<Rightarrow> string list \<Rightarrow> transcript option" where
  "find_manually_created_transcript tlist codes = find_transcript False tlist codes"

definition find_generated_transcript :: "transcript list \<Rightarrow> string list \<Rightarrow> transcript option" where
  "find_generated_transcript tlist codes = find_transcript True tlist codes"

datatype 'a parsed = Parsed 'a | Malformed string

datatype 'a proc = TimedOut string | Completed int 'a

record event =
  tStartMs :: "real option"
  dDurationMs :: "real option"
  segs :: "string option list"

record sub_data =
  events :: "event list"

type_synonym files = "(string \<times> sub_data parsed) list"

record ytdlp_info =
  info_title :: "string option"
  info_uploader :: "string option"
  info_channel :: "string option"
  info_channel_url :: "string option"
  info_upload_date :: "string option"
  info_duration :: "real option"
  info_description :: "string option"
  info_view_count :: "int option"

record world =
  list_transcripts :: "string \<Rightarrow> exc + transcript list"
  which :: "string \<Rightarrow> bool"
  run_subs :: "string list \<Rightarrow> files \<Rightarrow> unit proc \<times> files"
  run_dump :: "string list \<Rightarrow> ytdlp_info parsed proc"
  urlopen :: "string \<Rightarrow> exc + string"
  html_unescape :: "string \<Rightarrow> string"
  repr_list :: "string list \<Rightarrow> string"

section \<open>\<open>_get_transcript_via_api\<close>\<close>

type_synonym selection = "transcript option \<times> string \<times> string"

fun manual_loop :: "transcript list \<Rightarrow> string list \<Rightarrow> selection \<Rightarrow> selection" where
  \<comment> \<open>the first \<open>for lang in languages\<close>; the state is \<open>(transcript, source, lang_found)\<close>\<close>
  "manual_loop tlist [] sel = sel"
| "manual_loop tlist (lang # langs) sel =
     (case find_manually_created_transcript tlist [lang] of
        Some t \<Rightarrow> (Some t, ''manual'', lang)
      | None \<Rightarrow> manual_loop tlist langs sel)"

fun generated_loop :: "transcript list \<Rightarrow> string list \<Rightarrow> selection \<Rightarrow> selection" where
  "generated_loop tlist [] sel = sel"
| "generated_loop tlist (lang # langs) sel =
     (case find_generated_transcript tlist [lang] of
        Some t \<Rightarrow> (Some t, ''auto-generated'', lang)
      | None \<Rightarrow> generated_loop tlist langs sel)"

definition last_resort :: "transcript list \<Rightarrow> selection \<Rightarrow> selection" where
  "last_resort tlist sel =
     (case tlist of
        [] \<Rightarrow> sel
      | t # _ \<Rightarrow> (Some t, if is_generated t then ''auto-generated'' else ''manual'',
                  language_code t))"

definition select_transcript :: "transcript list \<Rightarrow> string list \<Rightarrow> selection" where
  "select_transcript tlist languages =
     (let sel1 = manual_loop tlist languages (None, ''unknown'', ''unknown'');
          sel2 = (if fst sel1 = None then generated_loop tlist languages sel1 else sel1);
          sel3 = (if fst sel2 = None then last_resort tlist sel2 else sel2)
      in sel3)"

definition no_transcript_message :: "world \<Rightarrow> string \<Rightarrow> string list \<Rightarrow> string" where
  "no_transcript_message w vid languages =
     ''No transcript available for video '' @ vid @ ''. ''
     @ ''Tried languages: '' @ repr_list w languages @ ''. ''
     @ ''The video may not have captions enabled.''"

definition rounded_entry :: "entry \<Rightarrow> entry" where
  "rounded_entry e =
     \<lparr>entry_text = entry_text e, start = round2 (start e), duration = round2 (duration e)\<rparr>"

definition get_transcript_via_api :: "world \<Rightarrow> string \<Rightarrow> string list \<Rightarrow> exc + transcript_info" where
  "get_transcript_via_api w vid languages =
     (case list_transcripts w vid of
        Inl e \<Rightarrow> Inl e
      | Inr tlist \<Rightarrow>
          (case select_transcript tlist languages of
             (None, src, lang_found) \<Rightarrow> Inl (RuntimeError (no_transcript_message w vid languages))
           | (Some t, src, lang_found) \<Rightarrow>
               (case fetch t of
                  Inl e \<Rightarrow> Inl e
                | Inr es \<Rightarrow>
                    Inr \<lparr>entries = map rounded_entry es, language = lang_found, source = src\<rparr>)))"

section \<open>\<open>_get_transcript_via_ytdlp\<close>\<close>

text \<open>
  The directory \<open>/tmp\<close> is a list of files, each a path (paths are distinct) with the
  content as \<open>json.load\<close> reads it. A run of \<open>yt-dlp\<close> may add files and ends with a return
  code or, past its timeout, with \<open>subprocess.TimeoutExpired\<close>. The backend returns its
  result together with the files it leaves.
\<close>

definition subs_args :: "string \<Rightarrow> string \<Rightarrow> string \<Rightarrow> string list" where
  "subs_args sub_flag lang_str vid =
     [''yt-dlp'', sub_flag, ''--sub-lang'', lang_str, ''--sub-format'', ''json3'',
      ''--skip-download'', ''--no-warnings'', ''-o'', ''/tmp/yt_'' @ vid, ''--print-json'',
      watch_url vid]"

definition glob_match :: "string \<Rightarrow> string \<Rightarrow> bool" where
  \<comment> \<open>the path matches \<open>/tmp/yt_{video_id}*.json3\<close>, for an identifier \<open>video_id\<close>\<close>
  "glob_match vid path =
     (let pre = ''/tmp/yt_'' @ vid; suf = ''.json3'' in
      prefix pre path \<and> suffix suf path \<and> length pre + length suf \<le> length path
      \<and> CHR ''/'' \<notin> set (drop (length pre) path))"

definition glob :: "files \<Rightarrow> string \<Rightarrow> (string \<times> sub_data parsed) list" where
  "glob fs vid = filter (\<lambda>(path, content). glob_match vid path) fs"

definition os_remove :: "string \<Rightarrow> files \<Rightarrow> files" where
  "os_remove path fs = filter (\<lambda>(p, content). p \<noteq> path) fs"

definition text_parts_of :: "event \<Rightarrow> string list" where
  "text_parts_of ev =
     filter (\<lambda>t. t \<noteq> []) (map (\<lambda>sg. strip (case sg of None \<Rightarrow> [] | Some u \<Rightarrow> u)) (segs ev))"

fun event_entries :: "event list \<Rightarrow> entry list \<Rightarrow> entry list" where
  \<comment> \<open>the \<open>for event in ...\<close> loop; the second argument is \<open>entries\<close>\<close>
  "event_entries [] acc = acc"
| "event_entries (ev # evs) acc =
     (let text_parts = text_parts_of ev in
      if text_parts \<noteq> [] then
        event_entries evs (acc @
          [\<lparr>entry_text = join '' '' text_parts,
            start = round2 ((case tStartMs ev of None \<Rightarrow> 0 | Some x \<Rightarrow> x) / 1000),
            duration = round2 ((case dDurationMs ev of None \<Rightarrow> 0 | Some x \<Rightarrow> x) / 1000)\<rparr>])
      else event_entries evs acc)"

fun ytdlp_loop ::
  "world \<Rightarrow> string \<Rightarrow> string list \<Rightarrow> string list \<Rightarrow> files \<Rightarrow> (exc + transcript_info) \<times> files" where
  \<comment> \<open>the \<open>for sub_flag in ...\<close> loop, then the final \<open>raise\<close>\<close>
  "ytdlp_loop w vid languages [] fs =
     (Inl (RuntimeError (''yt-dlp could not find subtitles for '' @ vid
        @ '' in languages: '' @ repr_list w languages)), fs)"
| "ytdlp_loop w vid languages (sub_flag # flags) fs =
     (case run_subs w (subs_args sub_flag (join '','' languages) vid) fs of
        (TimedOut msg, fs1) \<Rightarrow> (Inl (ExternalError msg), fs1)
      | (Completed returncode out, fs1) \<Rightarrow>
          if returncode \<noteq> 0 then ytdlp_loop w vid languages flags fs1
          else
            (case glob fs1 vid of
               [] \<Rightarrow> ytdlp_loop w vid languages flags fs1
             | (path0, content0) # others \<Rightarrow>
                 (case content0 of
                    Malformed msg \<Rightarrow> (Inl (ExternalError msg), fs1)
                  | Parsed sub \<Rightarrow>
                      (let fs2 = fold os_remove (map fst ((path0, content0) # others)) fs1;
                           es = event_entries (events sub) [];
                           src = (if sub_flag = ''--write-sub'' then ''manual''
                                  else ''auto-generated'')
                       in (Inr \<lparr>entries = es, language = ''detected'', source = src\<rparr>, fs2)))))"

definition get_transcript_via_ytdlp ::
  "world \<Rightarrow> string \<Rightarrow> string list \<Rightarrow> files \<Rightarrow> (exc + transcript_info) \<times> files" where
  "get_transcript_via_ytdlp w vid languages fs =
     (if \<not> which w ''yt-dlp''
      then (Inl (RuntimeError ''yt-dlp is not installed. Install with: pip install yt-dlp''), fs)
      else ytdlp_loop w vid languages [''--write-sub'', ''--write-auto-sub''] fs)"

section \<open>\<open>_get_metadata_via_ytdlp\<close> and \<open>_get_metadata_via_api\<close>\<close>

definition default_metadata :: "string \<Rightarrow> metadata" where
  "default_metadata vid =
     \<lparr>title = ''Unknown'', author = ''Unknown'', channel_url = None, upload_date = None,
      duration_seconds = None, description = None, view_count = None, video_id = vid\<rparr>"

definition or_else :: "'a option \<Rightarrow> 'a \<Rightarrow> 'a" where
  \<comment> \<open>\<open>data.get(key, default)\<close>\<close>
  "or_else v d = (case v of None \<Rightarrow> d | Some x \<Rightarrow> x)"

definition dump_attempt :: "world \<Rightarrow> string \<Rightarrow> exc + metadata option" where
  \<comment> \<open>the body of the \<open>try\<close>: it raises, returns a record, or falls through (\<open>None\<close>)\<close>
  "dump_attempt w vid =
     (case run_dump w [''yt-dlp'', ''--dump-json'', ''--no-download'', ''--no-warnings'',
                       watch_url vid] of
        TimedOut msg \<Rightarrow> Inl (ExternalError msg)
      | Completed returncode out \<Rightarrow>
          if returncode = 0 then
            (case out of
               Malformed msg \<Rightarrow> Inl (ExternalError msg)
             | Parsed data \<Rightarrow>
                 Inr (Some
                   \<lparr>title = or_else (info_title data) ''Unknown'',
                    author = or_else (info_uploader data) (or_else (info_channel data) ''Unknown''),
                    channel_url = Some (or_else (info_channel_url data) []),
                    upload_date = Some (or_else (info_upload_date data) []),
                    duration_seconds = info_duration data,
                    description = Some (take 500 (or_else (info_description data) [])),
                    view_count = info_view_count data,
                    video_id = vid\<rparr>))
          else Inr None)"

definition get_metadata_via_ytdlp :: "world \<Rightarrow> string \<Rightarrow> exc + metadata" where
  "get_metadata_via_ytdlp w vid =
     (if \<not> which w ''yt-dlp'' then Inr (default_metadata vid)
      else
        (case dump_attempt w vid of
           Inl e \<Rightarrow> Inr (default_metadata vid)
         | Inr None \<Rightarrow> Inr (default_metadata vid)
         | Inr (Some m) \<Rightarrow> Inr m))"

fun lazy_until :: "string \<Rightarrow> string \<Rightarrow> string option" where
  \<comment> \<open>\<open>(.*?)\<close> followed by the literal \<open>close\<close>: the shortest run first, never over a newline\<close>
  "lazy_until close [] = (if close = [] then Some [] else None)"
| "lazy_until close (c # cs) =
     (if prefix close (c # cs) then Some []
      else if c = CHR 0x0A then None
      else map_option ((#) c) (lazy_until close cs))"

fun search_between :: "string \<Rightarrow> string \<Rightarrow> string \<Rightarrow> string option" where
  \<comment> \<open>\<open>re.search\<close> for the literal \<open>opn\<close>, \<open>(.*?)\<close>, the literal \<open>close\<close>; group 1\<close>
  "search_between opn close [] = (if opn = [] then lazy_until close [] else None)"
| "search_between opn close (c # cs) =
     (case (if prefix opn (c # cs) then lazy_until close (drop (length opn) (c # cs)) else None) of
        Some g \<Rightarrow> Some g
      | None \<Rightarrow> search_between opn close cs)"

function str_remove :: "string \<Rightarrow> string \<Rightarrow> string" where
  \<comment> \<open>\<open>s.replace(old, "")\<close>\<close>
  "str_remove old s =
     (if s = [] \<or> old = [] then s
      else if prefix old s then str_remove old (drop (length old) s)
      else hd s # str_remove old (tl s))"
  by pat_completeness auto
termination
  by (relation "measure (\<lambda>(old, s). length s)") auto

declare str_remove.simps [simp del]

definition get_metadata_via_api :: "world \<Rightarrow> string \<Rightarrow> exc + metadata" where
  \<open>get_metadata_via_api w vid =
     (case urlopen w (watch_url vid) of
        Inl e \<Rightarrow> Inr (default_metadata vid)
      | Inr page \<Rightarrow>
          (let title_match = search_between ''<title>'' ''</title>'' page;
               t = (case title_match of
                      Some g \<Rightarrow> strip (str_remove '' - YouTube'' (html_unescape w g))
                    | None \<Rightarrow> ''Unknown'');
               author_match = search_between ''"ownerChannelName":"'' ''"'' page;
               a = (case author_match of Some g \<Rightarrow> html_unescape w g | None \<Rightarrow> ''Unknown'')
           in Inr ((default_metadata vid)\<lparr>title := t, author := a\<rparr>)))\<close>

section \<open>\<open>youtube_get_transcript\<close>\<close>

text \<open>
  The request returns its text (or raises), the files it leaves in \<open>/tmp\<close>, and the list of
  the backends it invoked, in the order of the calls.
\<close>

record params =
  p_url :: string
  p_languages :: "string list option"
  p_include_timestamps :: bool
  p_include_metadata :: bool

datatype backend = CaptionApi | CaptionYtdlp | MetadataYtdlp | MetadataApi

definition DEFAULT_LANGUAGES :: "string list" where
  "DEFAULT_LANGUAGES = [''ja'', ''en'', ''ko'']"

definition error_output :: "string \<Rightarrow> string list \<Rightarrow> string" where
  "error_output vid errors =
     ''Error: Could not retrieve transcript for video '' @ vid @ ''.\<newline>''
     @ ''Attempted methods:\<newline>'' @ join ''\<newline>'' (map (\<lambda>e. ''  - '' @ e) errors) @ ''\<newline>\<newline>''
     @ ''Possible causes:\<newline>''
     @ ''  - The video has no captions/subtitles\<newline>''
     @ ''  - The video is private or age-restricted\<newline>''
     @ ''  - The requested languages are not available''"

definition fetch_metadata :: "world \<Rightarrow> params \<Rightarrow> string \<Rightarrow> metadata \<times> backend list" where
  "fetch_metadata w ps vid =
     (if p_include_metadata ps then
        (case get_metadata_via_ytdlp w vid of
           Inr m \<Rightarrow> (m, [MetadataYtdlp])
         | Inl e \<Rightarrow>
             (case get_metadata_via_api w vid of
                Inr m \<Rightarrow> (m, [MetadataYtdlp, MetadataApi])
              | Inl e' \<Rightarrow> (default_metadata vid, [MetadataYtdlp, MetadataApi])))
      else (default_metadata vid, []))"

definition fetch_transcript ::
  "world \<Rightarrow> string \<Rightarrow> string list \<Rightarrow> files \<Rightarrow>
     (transcript_info option \<times> string list) \<times> files \<times> backend list" where
  \<comment> \<open>the two strategies; the first component is \<open>(transcript_info, errors)\<close>\<close>
  "fetch_transcript w vid languages fs =
     (case get_transcript_via_api w vid languages of
        Inr info \<Rightarrow> ((Some info, []), fs, [CaptionApi])
      | Inl e1 \<Rightarrow>
          (let errors = [''youtube-transcript-api: '' @ str_exc e1] in
           case get_transcript_via_ytdlp w vid languages fs of
             (Inr info, fs1) \<Rightarrow> ((Some info, errors), fs1, [CaptionApi, CaptionYtdlp])
           | (Inl e2, fs1) \<Rightarrow>
               ((None, errors @ [''yt-dlp: '' @ str_exc e2]), fs1, [CaptionApi, CaptionYtdlp])))"

definition requested_languages :: "params \<Rightarrow> string list" where
  \<comment> \<open>\<open>params.languages or DEFAULT_LANGUAGES\<close>\<close>
  "requested_languages ps =
     (case p_languages ps of
        None \<Rightarrow> DEFAULT_LANGUAGES
      | Some ls \<Rightarrow> if ls = [] then DEFAULT_LANGUAGES else ls)"

definition youtube_get_transcript ::
  "world \<Rightarrow> params \<Rightarrow> files \<Rightarrow> (exc + string) \<times> files \<times> backend list" where
  "youtube_get_transcript w ps fs =
     (case extract_video_id (p_url ps) of
        Inl e \<Rightarrow> (Inl e, fs, [])
      | Inr vid \<Rightarrow>
          (let languages = requested_languages ps
           in case fetch_transcript w vid languages fs of
                ((None, errors), fs1, calls) \<Rightarrow> (Inr (error_output vid errors), fs1, calls)
              | ((Some info, errors), fs1, calls) \<Rightarrow>
                  (let transcript_text = format_transcript_text (entries info) (p_include_timestamps ps);
                       (m, calls2) = fetch_metadata w ps vid
                   in (Inr (build_markdown_output m transcript_text info vid), fs1, calls @ calls2))))"

section \<open>Reference definitions and example inputs\<close>

text \<open>
  The definitions named \<open>spec_\<close> state a notion in the words of the specification, to
  compare the code with. The others are inputs at which the theorems are evaluated: a
  metadata record, three transcripts, and six states of the outside world.
\<close>

definition spec_line :: "bool \<Rightarrow> entry \<Rightarrow> string" where
  \<comment> \<open>one output line as the specification words it: the marker \<open>[MM:SS]\<close> with
     \<open>MM = floor (start / 60)\<close> and \<open>SS = floor (start mod 60)\<close>, then the trimmed text\<close>
  "spec_line ts e =
     (if ts then ''['' @ format_02d \<lfloor>start e / 60\<rfloor> @ '':'' @
        format_02d \<lfloor>start e - 60 * of_int \<lfloor>start e / 60\<rfloor>\<rfloor> @ ''] '' else [])
     @ strip (entry_text e)"

definition spec_url_pattern_here :: "string \<Rightarrow> bool" where
  \<comment> \<open>a string that starts with one of the five URL shapes and an identifier\<close>
  "spec_url_pattern_here s = (\<exists>g rest. bare_id g \<and>
     (s = ''youtu.be/'' @ g @ rest \<or>
      s = ''youtube.com/embed/'' @ g @ rest \<or>
      s = ''youtube.com/v/'' @ g @ rest \<or>
      s = ''youtube.com/shorts/'' @ g @ rest \<or>
      (\<exists>mid. CHR 0x0A \<notin> set mid \<and> s = ''youtube.com/watch?'' @ mid @ ''v='' @ g @ rest)))"

definition spec_url_pattern :: "string \<Rightarrow> bool" where
  \<comment> \<open>the input matches a URL pattern: somewhere in it one of the five shapes is followed
     by eleven identifier characters\<close>
  "spec_url_pattern s = (\<exists>pre g rest. bare_id g \<and>
     (s = pre @ ''youtu.be/'' @ g @ rest \<or>
      s = pre @ ''youtube.com/embed/'' @ g @ rest \<or>
      s = pre @ ''youtube.com/v/'' @ g @ rest \<or>
      s = pre @ ''youtube.com/shorts/'' @ g @ rest \<or>
      (\<exists>mid. CHR 0x0A \<notin> set mid \<and> s = pre @ ''youtube.com/watch?'' @ mid @ ''v='' @ g @ rest)))"

definition spec_all_digits :: "string \<Rightarrow> bool" where
  "spec_all_digits d = list_all (\<lambda>c. c \<in> set ''0123456789'') d"

definition m0 :: metadata where
  \<comment> \<open>the placeholder metadata of \<open>youtube_get_transcript\<close>, for the video \<open>dQw4w9WgXcQ\<close>\<close>
  "m0 = \<lparr>title = ''Unknown'', author = ''Unknown'', channel_url = None,
     upload_date = None, duration_seconds = None, description = None, view_count = None,
     video_id = ''dQw4w9WgXcQ''\<rparr>"

definition i0 :: transcript_info where
  "i0 = \<lparr>entries = [], language = ''en'', source = ''manual''\<rparr>"

definition spec_both_failed :: "world \<Rightarrow> string \<Rightarrow> string list \<Rightarrow> files \<Rightarrow> bool" where
  \<comment> \<open>the two caption backends both raise\<close>
  "spec_both_failed w vid langs fs =
     ((\<exists>e1. get_transcript_via_api w vid langs = Inl e1)
      \<and> (\<exists>e2. fst (get_transcript_via_ytdlp w vid langs fs) = Inl e2))"

definition t_ja_manual :: transcript where
  "t_ja_manual = \<lparr>language_code = ''ja'', is_generated = False,
     fetch = Inr [\<lparr>entry_text = ''konnichiwa'', start = 1.234, duration = 2\<rparr>]\<rparr>"

definition t_ja_auto :: transcript where
  "t_ja_auto = \<lparr>language_code = ''ja'', is_generated = True,
     fetch = Inr [\<lparr>entry_text = ''konnichiha'', start = 1.2, duration = 2\<rparr>]\<rparr>"

definition t_en_auto :: transcript where
  "t_en_auto = \<lparr>language_code = ''en'', is_generated = True,
     fetch = Inr [\<lparr>entry_text = ''hello'', start = 1.2, duration = 2\<rparr>]\<rparr>"

definition w_dead :: world where
  \<comment> \<open>captions disabled, \<open>yt-dlp\<close> not installed, no network\<close>
  "w_dead = \<lparr>list_transcripts = (\<lambda>vid. Inl (ExternalError ''Subtitles are disabled for this video'')),
     which = (\<lambda>name. False),
     run_subs = (\<lambda>args fs. (Completed 1 (), fs)),
     run_dump = (\<lambda>args. Completed 1 (Malformed [])),
     urlopen = (\<lambda>u. Inl (ExternalError ''offline'')),
     html_unescape = (\<lambda>s. s),
     repr_list = (\<lambda>ls. ''['' @ join '', '' ls @ '']'')\<rparr>"

definition w_api :: world where
  \<comment> \<open>the captioning service offers three transcripts\<close>
  "w_api = w_dead\<lparr>list_transcripts := (\<lambda>vid. Inr [t_ja_manual, t_ja_auto, t_en_auto])\<rparr>"

definition w_page :: world where
  \<comment> \<open>as \<open>w_api\<close>, and the watch page can be fetched\<close>
  \<open>w_page = w_api\<lparr>urlopen := (\<lambda>u. Inr (''<html><title>Some Talk - YouTube</title>''
     @ ''<script>{"ownerChannelName":"Some Channel"}</script></html>''))\<rparr>\<close>

definition sub_path :: string where
  "sub_path = ''/tmp/yt_dQw4w9WgXcQ.en.json3''"

definition w_subs :: world where
  \<comment> \<open>only \<open>yt-dlp --write-sub\<close> works: it writes one English subtitle file\<close>
  "w_subs = w_dead\<lparr>which := (\<lambda>name. True),
     run_subs := (\<lambda>args fs.
        if args ! 1 = ''--write-sub''
        then (Completed 0 (), fs @ [(sub_path, Parsed \<lparr>events =
               [\<lparr>tStartMs = Some 1200, dDurationMs = Some 3000,
                 segs = [Some ''Hello'', Some '' world '']\<rparr>]\<rparr>)])
        else (Completed 1 (), fs))\<rparr>"

definition w_bad_subs :: world where
  \<comment> \<open>\<open>yt-dlp --write-sub\<close> writes a file that is not JSON\<close>
  "w_bad_subs = w_dead\<lparr>which := (\<lambda>name. True),
     run_subs := (\<lambda>args fs.
        (Completed 0 (), fs @ [(sub_path, Malformed ''Expecting value: line 1 column 1 (char 0)'')]))\<rparr>"

fun split_nl :: "string \<Rightarrow> string \<Rightarrow> string list" where
  \<comment> \<open>the lines of a text after the unfinished line \<open>acc\<close>\<close>
  "split_nl acc [] = [acc]"
| "split_nl acc (c # cs) =
     (if c = CHR 0x0A then acc # split_nl [] cs else split_nl (acc @ [c]) cs)"

definition spec_lines :: "string \<Rightarrow> string list" where
  \<comment> \<open>the lines of a text: \<open>s.split("\n")\<close>\<close>
  "spec_lines s = split_nl [] s"

definition spec_diagnostic_lines :: "string \<Rightarrow> string list" where
  \<comment> \<open>the diagnostic lines of the error form: the lines after its first two (the
     \<open>Error:\<close> line and \<open>Attempted methods:\<close>) up to the empty line\<close>
  "spec_diagnostic_lines out = takeWhile (\<lambda>l. l \<noteq> []) (drop 2 (spec_lines out))"

definition w_multiline :: world where
  \<comment> \<open>as \<open>w_dead\<close>, with a message of two lines from the captioning client\<close>
  "w_multiline = w_dead\<lparr>list_transcripts :=
     (\<lambda>vid. Inl (ExternalError
        ''Could not retrieve a transcript\<newline>Subtitles are disabled for this video''))\<rparr>"

definition ps0 :: params where
  "ps0 = \<lparr>p_url = ''https://youtu.be/dQw4w9WgXcQ'', p_languages = None,
     p_include_timestamps = False, p_include_metadata = True\<rparr>"

section \<open>Properties of the formatter\<close>

lemma format_loop_acc:
  "format_loop es ts lines = lines @ format_loop es ts []"
proof (induction es arbitrary: lines)
  case Nil
  show ?case by simp
next
  case (Cons e es)
  have step: "format_loop es ts (lines @ [l]) = lines @ format_loop es ts [l]" for l
    using Cons.IH [of "lines @ [l]"] Cons.IH [of "[l]"] by simp
  show ?case
    using Cons.IH [of lines] step by (cases ts) (simp_all add: Let_def)
qed

lemma py_int_of_int: "py_int (of_int k) = k"
  by (simp add: py_int_def)

lemma py_mod_60_range: "0 \<le> py_mod x 60 \<and> py_mod x 60 < 60"
proof -
  have "of_int \<lfloor>x / 60\<rfloor> \<le> x / 60" "x / 60 < of_int \<lfloor>x / 60\<rfloor> + 1"
    by linarith+
  then show ?thesis by (simp add: py_mod_def field_simps)
qed

lemma minutes_eq: "py_int (py_floordiv x 60) = \<lfloor>x / 60\<rfloor>"
  by (simp add: py_floordiv_def py_int_of_int)

lemma seconds_eq: "py_int (py_mod x 60) = \<lfloor>x - 60 * of_int \<lfloor>x / 60\<rfloor>\<rfloor>"
  using py_mod_60_range [of x] by (simp add: py_int_def py_mod_def)

lemma format_loop_filter_map:
  "format_loop es ts [] = map (spec_line ts) (filter (\<lambda>e. strip (entry_text e) \<noteq> []) es)"
proof (induction es)
  case Nil
  show ?case by simp
next
  case (Cons e es)
  show ?case
    using Cons.IH format_loop_acc [of es ts "[l]" for l]
    by (cases ts) (simp_all add: Let_def minutes_eq seconds_eq spec_line_def)
qed

lemma nat_digits_small: "n < 10 \<Longrightarrow> nat_digits n = [digit n]"
  by (simp add: nat_digits.simps)

lemma format_02d_two: "0 \<le> n \<Longrightarrow> n < 100 \<Longrightarrow> format_02d n = [digit (nat n div 10), digit (nat n mod 10)]"
proof (cases "n < 10")
  case True
  assume "0 \<le> n" 
  with True have "nat n < 10" by simp
  then have "nat_digits (nat n) = [digit (nat n)]" by (rule nat_digits_small)
  moreover have "nat n div 10 = 0" "nat n mod 10 = nat n" using \<open>nat n < 10\<close> by simp_all
  moreover have "digit 0 = CHR ''0''" by (simp add: digit_def)
  ultimately show ?thesis using \<open>0 \<le> n\<close> by (simp add: format_02d_def str_int_def Let_def)
next
  case False
  assume a: "0 \<le> n" "n < 100"
  with False have b: "\<not> nat n < 10" "nat n div 10 < 10" by simp_all
  have "nat_digits (nat n) = nat_digits (nat n div 10) @ [digit (nat n mod 10)]"
    using b(1) by (subst nat_digits.simps) simp
  also have "nat_digits (nat n div 10) = [digit (nat n div 10)]" using b(2) by (rule nat_digits_small)
  finally show ?thesis using a by (simp add: format_02d_def str_int_def Let_def)
qed

text \<open>
  Claim C4. The formatter drops every entry whose trimmed text is empty and joins the lines
  of the others, in their order, with one newline; with timestamps each line starts with
  \<open>[MM:SS]\<close>, \<open>MM = floor (start / 60)\<close> and \<open>SS = floor (start mod 60)\<close>, each written
  with two digits when below 100; \<open>start = 125.4\<close> gives \<open>[02:05]\<close>.
\<close>

theorem format_transcript_text_spec:
  "format_transcript_text es ts =
     join ''\<newline>'' (map (spec_line ts) (filter (\<lambda>e. strip (entry_text e) \<noteq> []) es))
   \<and> (0 \<le> n \<and> n < 100 \<longrightarrow> format_02d n = [digit (nat n div 10), digit (nat n mod 10)])
   \<and> format_transcript_text [\<lparr>entry_text = ''hello'', start = 125.4, duration = 2\<rparr>] True
       = ''[02:05] hello''"
proof (intro conjI impI)
  show "format_transcript_text es ts =
     join ''\<newline>'' (map (spec_line ts) (filter (\<lambda>e. strip (entry_text e) \<noteq> []) es))"
    by (simp add: format_transcript_text_def format_loop_filter_map)
next
  assume "0 \<le> n \<and> n < 100"
  then show "format_02d n = [digit (nat n div 10), digit (nat n mod 10)]"
    by (simp add: format_02d_two)
next
  show "format_transcript_text [\<lparr>entry_text = ''hello'', start = 125.4, duration = 2\<rparr>] True
       = ''[02:05] hello''"
    by (simp add: format_transcript_text_def Let_def strip_def is_space_def py_int_def
        py_floordiv_def py_mod_def format_02d_def str_int_def nat_digits.simps digit_def)
qed

theorem format_transcript_text_spec_witness:
  "format_transcript_text
     [\<lparr>entry_text = '' first '', start = 7, duration = 2\<rparr>,
      \<lparr>entry_text = ''  '', start = 9, duration = 1\<rparr>,
      \<lparr>entry_text = ''second'', start = 3725.25, duration = 2\<rparr>] True
     = ''[00:07] first\<newline>[62:05] second''
   \<and> (0::int) \<le> 7 \<and> (7::int) < 100 \<and> format_02d 7 = ''07''"
  using format_transcript_text_spec [of
     "[\<lparr>entry_text = '' first '', start = 7, duration = 2\<rparr>,
      \<lparr>entry_text = ''  '', start = 9, duration = 1\<rparr>,
      \<lparr>entry_text = ''second'', start = 3725.25, duration = 2\<rparr>]" True 7]
  by (simp add: spec_line_def strip_def is_space_def format_02d_def str_int_def
      nat_digits.simps digit_def)

section \<open>Properties of the document builder\<close>

lemma len_marker: "length truncation_marker = 46" by (simp add: truncation_marker_def)

lemma len_assemble_m0: "length (assemble_output m0 t i0 ''dQw4w9WgXcQ'') = length t + 181"
  by (simp add: assemble_output_def m0_def i0_def frontmatter_fields_def description_section_def watch_url_def)

text \<open>
  Claim C5. An assembled document longer than 200000 characters is cut to its first 200000
  characters, wherever that falls, and the truncation marker is appended, so the result has
  200000 characters plus the marker's; a document of at most 200000 characters is returned
  as it is.
\<close>

theorem build_markdown_output_truncation:
  "(length (assemble_output m t info vid) > 200000 \<longrightarrow>
      build_markdown_output m t info vid = take 200000 (assemble_output m t info vid) @ truncation_marker
      \<and> length (build_markdown_output m t info vid) = 200000 + length truncation_marker)
   \<and> (length (assemble_output m t info vid) \<le> 200000 \<longrightarrow>
      build_markdown_output m t info vid = assemble_output m t info vid)"
  by (simp add: build_markdown_output_def MAX_TRANSCRIPT_CHARS_def Let_def)

theorem build_markdown_output_truncation_witness:
  "length (assemble_output m0 (replicate 249819 CHR ''a'') i0 ''dQw4w9WgXcQ'') = 250000
   \<and> length (build_markdown_output m0 (replicate 249819 CHR ''a'') i0 ''dQw4w9WgXcQ'') = 200046
   \<and> length (assemble_output m0 ''hello'' i0 ''dQw4w9WgXcQ'') = 186
   \<and> build_markdown_output m0 ''hello'' i0 ''dQw4w9WgXcQ'' = assemble_output m0 ''hello'' i0 ''dQw4w9WgXcQ''"
  using build_markdown_output_truncation [of m0 "replicate 249819 CHR ''a''" i0 "''dQw4w9WgXcQ''"]
    build_markdown_output_truncation [of m0 "''hello''" i0 "''dQw4w9WgXcQ''"]
  by (simp add: len_assemble_m0 len_marker)

text \<open>
  Claim C9, as stated, fails: the builder looks at the length of the raw value only, so an
  upload date of eight characters that are not digits is split as well.
\<close>

theorem upload_date_counterexample:
  "length ''2024-1-5'' = 8 \<and> \<not> spec_all_digits ''2024-1-5''
   \<and> frontmatter_fields (m0\<lparr>upload_date := Some ''2024-1-5''\<rparr>) i0 ''dQw4w9WgXcQ'' ! 6
       = ''upload_date: 2024--1--5''
   \<and> frontmatter_fields (m0\<lparr>upload_date := Some ''2024-1-5''\<rparr>) i0 ''dQw4w9WgXcQ'' ! 6
       \<noteq> ''upload_date: 2024-1-5''"
  by (simp add: frontmatter_fields_def m0_def upload_date_field_def spec_all_digits_def)

text \<open>
  Claim C9, amended. For a non-empty upload date the seventh header field is the value
  split as \<open>d[:4]-d[4:6]-d[6:]\<close> exactly when the value has eight characters, and the
  value itself otherwise.
\<close>

theorem upload_date_by_length:
  "(upload_date m = Some d \<and> d \<noteq> [] \<longrightarrow>
     frontmatter_fields m info vid ! 6 =
       (if length d = 8
        then ''upload_date: '' @ take 4 d @ ''-'' @ take 2 (drop 4 d) @ ''-'' @ drop 6 d
        else ''upload_date: '' @ d))
   \<and> (upload_date m = Some (y @ mo @ dd) \<and> length y = 4 \<and> length mo = 2 \<and> length dd = 2 \<longrightarrow>
     frontmatter_fields m info vid ! 6 = ''upload_date: '' @ y @ ''-'' @ mo @ ''-'' @ dd)
   \<and> (upload_date m = Some d \<and> d \<noteq> [] \<and> length d \<noteq> 8 \<longrightarrow>
     frontmatter_fields m info vid ! 6 = ''upload_date: '' @ d)"
proof (intro conjI impI)
  assume "upload_date m = Some d \<and> d \<noteq> []"
  then show "frontmatter_fields m info vid ! 6 =
       (if length d = 8
        then ''upload_date: '' @ take 4 d @ ''-'' @ take 2 (drop 4 d) @ ''-'' @ drop 6 d
        else ''upload_date: '' @ d)"
    by (simp add: frontmatter_fields_def upload_date_field_def)
next
  assume a: "upload_date m = Some (y @ mo @ dd) \<and> length y = 4 \<and> length mo = 2 \<and> length dd = 2"
  then have "y @ mo @ dd \<noteq> []" by auto
  with a show "frontmatter_fields m info vid ! 6 = ''upload_date: '' @ y @ ''-'' @ mo @ ''-'' @ dd"
    by (simp add: frontmatter_fields_def upload_date_field_def)
next
  assume "upload_date m = Some d \<and> d \<noteq> [] \<and> length d \<noteq> 8"
  then show "frontmatter_fields m info vid ! 6 = ''upload_date: '' @ d"
    by (simp add: frontmatter_fields_def upload_date_field_def)
qed

theorem upload_date_by_length_witness:
  "frontmatter_fields (m0\<lparr>upload_date := Some ''20240131''\<rparr>) i0 ''dQw4w9WgXcQ'' ! 6
     = ''upload_date: 2024-01-31''
   \<and> frontmatter_fields (m0\<lparr>upload_date := Some ''2024-01''\<rparr>) i0 ''dQw4w9WgXcQ'' ! 6
     = ''upload_date: 2024-01''"
  using upload_date_by_length [of "m0\<lparr>upload_date := Some ''20240131''\<rparr>" "''20240131''" i0
      "''dQw4w9WgXcQ''" "''2024''" "''01''" "''31''"]
    upload_date_by_length [of "m0\<lparr>upload_date := Some ''2024-01''\<rparr>" "''2024-01''" i0
      "''dQw4w9WgXcQ''" "[]" "[]" "[]"]
  by simp

lemma frontmatter_fields_split:
  "frontmatter_fields m info vid =
     take 6 (frontmatter_fields m info vid)
     @ (if \<exists>d. upload_date m = Some d \<and> d \<noteq> [] then [upload_date_field (the (upload_date m))] else [])
     @ (if \<exists>x. duration_seconds m = Some x \<and> x \<noteq> 0 then [duration_field (the (duration_seconds m))] else [])"
  by (simp add: frontmatter_fields_def split: option.splits)

lemma base_fields_not_optional:
  "f \<in> set (take 6 (frontmatter_fields m info vid)) \<Longrightarrow>
     take 13 f \<noteq> ''upload_date: '' \<and> take 10 f \<noteq> ''duration: ''"
  by (auto simp: frontmatter_fields_def watch_url_def)

lemma upload_date_field_prefix:
  "take 13 (upload_date_field d) = ''upload_date: '' \<and> take 10 (upload_date_field d) \<noteq> ''duration: ''"
  by (simp add: upload_date_field_def)

lemma duration_field_prefix:
  "take 10 (duration_field x) = ''duration: '' \<and> take 13 (duration_field x) \<noteq> ''upload_date: ''"
  by (simp add: duration_field_def Let_def)

lemma upload_field_present:
  "(\<exists>f \<in> set (frontmatter_fields m info vid). take 13 f = ''upload_date: '')
      \<longleftrightarrow> (\<exists>d. upload_date m = Some d \<and> d \<noteq> [])"
proof
  assume "\<exists>f \<in> set (frontmatter_fields m info vid). take 13 f = ''upload_date: ''"
  then obtain f where f: "f \<in> set (frontmatter_fields m info vid)" "take 13 f = ''upload_date: ''"
    by blast
  show "\<exists>d. upload_date m = Some d \<and> d \<noteq> []"
  proof (rule ccontr)
    assume no: "\<not> (\<exists>d. upload_date m = Some d \<and> d \<noteq> [])"
    from f(1) have "f \<in> set (take 6 (frontmatter_fields m info vid)) \<or>
        f = duration_field (the (duration_seconds m))"
      by (subst (asm) frontmatter_fields_split) (auto simp: no split: if_splits)
    then show False
      using f(2) base_fields_not_optional [of f m info vid] duration_field_prefix by auto
  qed
next
  assume yes: "\<exists>d. upload_date m = Some d \<and> d \<noteq> []"
  have "upload_date_field (the (upload_date m)) \<in> set (frontmatter_fields m info vid)"
    by (subst frontmatter_fields_split) (simp add: yes)
  then show "\<exists>f \<in> set (frontmatter_fields m info vid). take 13 f = ''upload_date: ''"
    using upload_date_field_prefix by blast
qed

lemma duration_field_present:
  "(\<exists>f \<in> set (frontmatter_fields m info vid). take 10 f = ''duration: '')
      \<longleftrightarrow> (\<exists>x. duration_seconds m = Some x \<and> x \<noteq> 0)"
proof
  assume "\<exists>f \<in> set (frontmatter_fields m info vid). take 10 f = ''duration: ''"
  then obtain f where f: "f \<in> set (frontmatter_fields m info vid)" "take 10 f = ''duration: ''"
    by blast
  show "\<exists>x. duration_seconds m = Some x \<and> x \<noteq> 0"
  proof (rule ccontr)
    assume no: "\<not> (\<exists>x. duration_seconds m = Some x \<and> x \<noteq> 0)"
    from f(1) have "f \<in> set (take 6 (frontmatter_fields m info vid)) \<or>
        f = upload_date_field (the (upload_date m))"
      by (subst (asm) frontmatter_fields_split) (auto simp: no split: if_splits)
    then show False
      using f(2) base_fields_not_optional [of f m info vid] upload_date_field_prefix by auto
  qed
next
  assume yes: "\<exists>x. duration_seconds m = Some x \<and> x \<noteq> 0"
  have "duration_field (the (duration_seconds m)) \<in> set (frontmatter_fields m info vid)"
    by (subst frontmatter_fields_split) (simp add: yes)
  then show "\<exists>f \<in> set (frontmatter_fields m info vid). take 10 f = ''duration: ''"
    using duration_field_prefix by blast
qed

lemma falsy_upload_date:
  "upload_date m = Some [] \<Longrightarrow>
     frontmatter_fields m info vid = frontmatter_fields (m\<lparr>upload_date := None\<rparr>) info vid"
  by (simp add: frontmatter_fields_def)

lemma falsy_duration:
  "duration_seconds m = Some 0 \<Longrightarrow>
     frontmatter_fields m info vid = frontmatter_fields (m\<lparr>duration_seconds := None\<rparr>) info vid"
  by (simp add: frontmatter_fields_def)

text \<open>
  Claim C10. The header has an \<open>upload_date\<close> field exactly when the metadata's upload date
  is a non-empty string, and a \<open>duration\<close> field exactly when its duration is a number other
  than zero: an empty upload date and a duration of 0 give the document of a record without
  them.
\<close>

theorem optional_fields_truthy:
  "((\<exists>f \<in> set (frontmatter_fields m info vid). take 13 f = ''upload_date: '')
      \<longleftrightarrow> (\<exists>d. upload_date m = Some d \<and> d \<noteq> []))
   \<and> ((\<exists>f \<in> set (frontmatter_fields m info vid). take 10 f = ''duration: '')
      \<longleftrightarrow> (\<exists>x. duration_seconds m = Some x \<and> x \<noteq> 0))
   \<and> (upload_date m = Some [] \<longrightarrow>
        build_markdown_output m t info vid = build_markdown_output (m\<lparr>upload_date := None\<rparr>) t info vid)
   \<and> (duration_seconds m = Some 0 \<longrightarrow>
        build_markdown_output m t info vid = build_markdown_output (m\<lparr>duration_seconds := None\<rparr>) t info vid)"
proof (intro conjI impI)
  show "(\<exists>f \<in> set (frontmatter_fields m info vid). take 13 f = ''upload_date: '')
      \<longleftrightarrow> (\<exists>d. upload_date m = Some d \<and> d \<noteq> [])"
    by (rule upload_field_present)
  show "(\<exists>f \<in> set (frontmatter_fields m info vid). take 10 f = ''duration: '')
      \<longleftrightarrow> (\<exists>x. duration_seconds m = Some x \<and> x \<noteq> 0)"
    by (rule duration_field_present)
next
  assume "upload_date m = Some []"
  then show "build_markdown_output m t info vid = build_markdown_output (m\<lparr>upload_date := None\<rparr>) t info vid"
    by (simp add: build_markdown_output_def assemble_output_def description_section_def
        falsy_upload_date)
next
  assume "duration_seconds m = Some 0"
  then show "build_markdown_output m t info vid = build_markdown_output (m\<lparr>duration_seconds := None\<rparr>) t info vid"
    by (simp add: build_markdown_output_def assemble_output_def description_section_def
        falsy_duration)
qed

theorem optional_fields_truthy_witness:
  "frontmatter_fields (m0\<lparr>upload_date := Some [], duration_seconds := Some 0\<rparr>) i0 ''dQw4w9WgXcQ''
     = frontmatter_fields m0 i0 ''dQw4w9WgXcQ''
   \<and> \<not> (\<exists>f \<in> set (frontmatter_fields (m0\<lparr>upload_date := Some [], duration_seconds := Some 0\<rparr>) i0 ''dQw4w9WgXcQ'').
           take 10 f = ''duration: '')
   \<and> build_markdown_output (m0\<lparr>upload_date := Some [], duration_seconds := Some 0\<rparr>) ''hi'' i0 ''dQw4w9WgXcQ''
     = build_markdown_output (m0\<lparr>upload_date := Some []\<rparr>) ''hi'' i0 ''dQw4w9WgXcQ''"
  using optional_fields_truthy [of "m0\<lparr>upload_date := Some [], duration_seconds := Some 0\<rparr>" i0 "''dQw4w9WgXcQ''" "''hi''"]
  by (simp add: m0_def frontmatter_fields_def build_markdown_output_def assemble_output_def
      description_section_def)

section \<open>Properties of the identifier extractor\<close>

lemma id_group_Some: "id_group s = Some g \<longleftrightarrow> (\<exists>rest. s = g @ rest \<and> bare_id g)"
proof
  assume "id_group s = Some g"
  then have a: "11 \<le> length s" "list_all id_char (take 11 s)" "g = take 11 s"
    by (auto simp: id_group_def split: if_splits)
  then have "s = g @ drop 11 s \<and> bare_id g" by (simp add: bare_id_def)
  then show "\<exists>rest. s = g @ rest \<and> bare_id g" by blast
next
  assume "\<exists>rest. s = g @ rest \<and> bare_id g"
  then show "id_group s = Some g" by (auto simp: id_group_def bare_id_def)
qed

lemma after_literal_Some:
  "after_literal lit s = Some g \<longleftrightarrow> (\<exists>rest. s = lit @ g @ rest \<and> bare_id g)"
proof
  assume a: "after_literal lit s = Some g"
  then have p: "prefix lit s" and "id_group (drop (length lit) s) = Some g"
    by (auto simp: after_literal_def split: if_splits)
  then obtain rest where "drop (length lit) s = g @ rest" "bare_id g"
    by (auto simp: id_group_Some)
  moreover from p have "s = lit @ drop (length lit) s" by (auto simp: prefix_def)
  ultimately show "\<exists>rest. s = lit @ g @ rest \<and> bare_id g" by metis
next
  assume "\<exists>rest. s = lit @ g @ rest \<and> bare_id g"
  then obtain rest where s: "s = lit @ g @ rest" and g: "bare_id g" by blast
  have "id_group (g @ rest) = Some g" using g by (auto simp: id_group_Some)
  then show "after_literal lit s = Some g" by (simp add: after_literal_def s)
qed

lemma watch_tail_Some_ex:
  "(\<exists>g. watch_tail r = Some g) \<longleftrightarrow>
   (\<exists>mid g rest. CHR 0x0A \<notin> set mid \<and> bare_id g \<and> r = mid @ ''v='' @ g @ rest)"
proof (induction r)
  case Nil
  show ?case by (simp add: after_literal_def)
next
  case (Cons c cs)
  show ?case
  proof
    assume "\<exists>g. watch_tail (c # cs) = Some g"
    then obtain g where g: "watch_tail (c # cs) = Some g" by blast
    then consider (deep) "c \<noteq> CHR 0x0A" "watch_tail cs = Some g"
      | (here) "after_literal ''v='' (c # cs) = Some g"
      by (auto split: option.splits if_splits)
    then show "\<exists>mid g rest. CHR 0x0A \<notin> set mid \<and> bare_id g \<and> c # cs = mid @ ''v='' @ g @ rest"
    proof cases
      case deep
      then obtain mid g' rest where m: "CHR 0x0A \<notin> set mid" "bare_id g'" "cs = mid @ ''v='' @ g' @ rest"
        using Cons.IH by blast
      then have "CHR 0x0A \<notin> set (c # mid) \<and> bare_id g' \<and> c # cs = (c # mid) @ ''v='' @ g' @ rest"
        using deep(1) by simp
      then show ?thesis by blast
    next
      case here
      then obtain rest where "c # cs = ''v='' @ g @ rest" "bare_id g"
        by (auto simp: after_literal_Some)
      then have "CHR 0x0A \<notin> set [] \<and> bare_id g \<and> c # cs = [] @ ''v='' @ g @ rest" by simp
      then show ?thesis by blast
    qed
  next
    assume "\<exists>mid g rest. CHR 0x0A \<notin> set mid \<and> bare_id g \<and> c # cs = mid @ ''v='' @ g @ rest"
    then obtain mid g rest where m: "CHR 0x0A \<notin> set mid" "bare_id g" "c # cs = mid @ ''v='' @ g @ rest"
      by blast
    show "\<exists>g. watch_tail (c # cs) = Some g"
    proof (cases mid)
      case Nil
      then have "after_literal ''v='' (c # cs) = Some g"
        using m by (subst after_literal_Some) auto
      then show ?thesis by (auto split: option.splits)
    next
      case (Cons d mid')
      then have "c \<noteq> CHR 0x0A" "CHR 0x0A \<notin> set mid'" "cs = mid' @ ''v='' @ g @ rest"
        using m by auto
      then have "\<exists>g. watch_tail cs = Some g" using Cons.IH m(2) by blast
      then show ?thesis using \<open>c \<noteq> CHR 0x0A\<close> by auto
    qed
  qed
qed

lemma watch_tail_bare: "watch_tail r = Some g \<Longrightarrow> bare_id g"
  by (induction r) (auto simp: after_literal_Some split: option.splits if_splits)


lemma after_literal_ex:
  "(\<exists>g. after_literal lit s = Some g) \<longleftrightarrow> (\<exists>g rest. bare_id g \<and> s = lit @ g @ rest)"
  by (auto simp: after_literal_Some)

lemma watch_alternative_ex:
  "(\<exists>g. watch_alternative s = Some g) \<longleftrightarrow>
   (\<exists>mid g rest. CHR 0x0A \<notin> set mid \<and> bare_id g \<and>
      s = ''youtube.com/watch?'' @ mid @ ''v='' @ g @ rest)"
proof
  assume "\<exists>g. watch_alternative s = Some g"
  then have p: "prefix ''youtube.com/watch?'' s"
    and w: "\<exists>g. watch_tail (drop (length ''youtube.com/watch?'') s) = Some g"
    by (auto simp: watch_alternative_def split: if_splits)
  from p have "s = ''youtube.com/watch?'' @ drop (length ''youtube.com/watch?'') s"
    by (auto simp: prefix_def)
  moreover from w obtain mid g rest where "CHR 0x0A \<notin> set mid" "bare_id g"
      "drop (length ''youtube.com/watch?'') s = mid @ ''v='' @ g @ rest"
    unfolding watch_tail_Some_ex by blast
  ultimately show "\<exists>mid g rest. CHR 0x0A \<notin> set mid \<and> bare_id g \<and>
      s = ''youtube.com/watch?'' @ mid @ ''v='' @ g @ rest"
    by metis
next
  assume "\<exists>mid g rest. CHR 0x0A \<notin> set mid \<and> bare_id g \<and>
      s = ''youtube.com/watch?'' @ mid @ ''v='' @ g @ rest"
  then obtain mid g rest where m: "CHR 0x0A \<notin> set mid" "bare_id g"
      "s = ''youtube.com/watch?'' @ mid @ ''v='' @ g @ rest" by blast
  have "\<exists>g'. watch_tail (mid @ ''v='' @ g @ rest) = Some g'"
    unfolding watch_tail_Some_ex using m(1,2) by blast
  then show "\<exists>g. watch_alternative s = Some g"
    by (simp add: watch_alternative_def m(3))
qed

lemma first_match_ex: "(\<exists>g. first_match alts = Some g) \<longleftrightarrow> (\<exists>g. Some g \<in> set alts)"
  by (induction alts rule: first_match.induct) auto

lemma first_match_mem: "first_match alts = Some g \<Longrightarrow> Some g \<in> set alts"
  by (induction alts rule: first_match.induct) auto

lemma watch_alternative_bare: "watch_alternative s = Some g \<Longrightarrow> bare_id g"
  by (auto simp: watch_alternative_def watch_tail_bare split: if_splits)

lemma after_literal_bare: "after_literal lit s = Some g \<Longrightarrow> bare_id g"
  by (auto simp: after_literal_Some)

lemma match_here_bare: "match_here s = Some g \<Longrightarrow> bare_id g"
  by (auto simp: match_here_def dest!: first_match_mem
      dest: watch_alternative_bare [OF sym] after_literal_bare [OF sym])

lemma match_here_ex: "(\<exists>g. match_here s = Some g) \<longleftrightarrow> spec_url_pattern_here s"
proof -
  have "(\<exists>g. match_here s = Some g) \<longleftrightarrow>
      ((\<exists>g. watch_alternative s = Some g) \<or> (\<exists>g. after_literal ''youtu.be/'' s = Some g)
       \<or> (\<exists>g. after_literal ''youtube.com/embed/'' s = Some g)
       \<or> (\<exists>g. after_literal ''youtube.com/v/'' s = Some g)
       \<or> (\<exists>g. after_literal ''youtube.com/shorts/'' s = Some g))"
    unfolding match_here_def first_match_ex by auto
  also have "\<dots> \<longleftrightarrow> spec_url_pattern_here s"
    unfolding watch_alternative_ex after_literal_ex spec_url_pattern_here_def by blast
  finally show ?thesis .
qed

lemma re_search_bare: "re_search s = Some g \<Longrightarrow> bare_id g"
  by (induction s) (auto simp: match_here_bare split: option.splits)

lemma re_search_ex: "(\<exists>g. re_search s = Some g) \<longleftrightarrow> (\<exists>pre suf. s = pre @ suf \<and> spec_url_pattern_here suf)"
proof (induction s)
  case Nil
  show ?case using match_here_ex [of "[]"] by simp
next
  case (Cons c cs)
  show ?case
  proof
    assume "\<exists>g. re_search (c # cs) = Some g"
    then consider (here) "\<exists>g. match_here (c # cs) = Some g" | (later) "\<exists>g. re_search cs = Some g"
      by (auto split: option.splits)
    then show "\<exists>pre suf. c # cs = pre @ suf \<and> spec_url_pattern_here suf"
    proof cases
      case here
      then have "c # cs = [] @ (c # cs) \<and> spec_url_pattern_here (c # cs)" by (simp add: match_here_ex)
      then show ?thesis by blast
    next
      case later
      then obtain pre suf where "cs = pre @ suf" "spec_url_pattern_here suf" using Cons.IH by blast
      then have "c # cs = (c # pre) @ suf \<and> spec_url_pattern_here suf" by simp
      then show ?thesis by blast
    qed
  next
    assume "\<exists>pre suf. c # cs = pre @ suf \<and> spec_url_pattern_here suf"
    then obtain pre suf where ps: "c # cs = pre @ suf" "spec_url_pattern_here suf" by blast
    show "\<exists>g. re_search (c # cs) = Some g"
    proof (cases pre)
      case Nil
      then have "\<exists>g. match_here (c # cs) = Some g" using ps by (simp add: match_here_ex)
      then show ?thesis by auto
    next
      case (Cons d pre')
      then have "cs = pre' @ suf" using ps by simp
      then have "\<exists>g. re_search cs = Some g" using Cons.IH ps(2) by blast
      then show ?thesis by (auto split: option.splits)
    qed
  qed
qed

lemma url_pattern_alt: "spec_url_pattern s \<longleftrightarrow> (\<exists>pre suf. s = pre @ suf \<and> spec_url_pattern_here suf)"
  unfolding spec_url_pattern_def spec_url_pattern_here_def by (rule iffI; (elim exE conjE disjE; blast))

lemma re_search_url_pattern: "(\<exists>g. re_search s = Some g) \<longleftrightarrow> spec_url_pattern s"
  by (simp only: re_search_ex url_pattern_alt)


lemma strip_noop: "s \<noteq> [] \<Longrightarrow> \<not> is_space (hd s) \<Longrightarrow> \<not> is_space (last s) \<Longrightarrow> strip s = s"
proof -
  assume a: "s \<noteq> []" "\<not> is_space (hd s)" "\<not> is_space (last s)"
  then have "dropWhile is_space s = s" by (cases s) simp_all
  moreover have "dropWhile is_space (rev s) = rev s"
    using a by (cases "rev s") (simp_all add: last_rev [symmetric] hd_rev)
  ultimately show ?thesis by (simp add: strip_def)
qed

lemma id_char_plain:
  "id_char c \<Longrightarrow> \<not> is_space c \<and> c \<noteq> CHR ''='' \<and> c \<noteq> CHR ''.''"
  by (auto simp: id_char_def is_space_def)

lemma bare_id_chars:
  assumes "bare_id v"
  shows "v \<noteq> []" and "\<not> is_space (hd v)" and "\<not> is_space (last v)"
    and "CHR ''='' \<notin> set v" and "CHR ''.'' \<notin> set v" and "take 11 v = v" and "11 \<le> length v"
proof -
  from assms have l: "length v = 11" and a: "\<forall>c \<in> set v. id_char c"
    by (auto simp: bare_id_def list_all_iff)
  from l show ne: "v \<noteq> []" by auto
  from ne a show "\<not> is_space (hd v)" "\<not> is_space (last v)"
    using id_char_plain by auto
  from a show "CHR ''='' \<notin> set v" "CHR ''.'' \<notin> set v" using id_char_plain by blast+
  from l show "take 11 v = v" "11 \<le> length v" by simp_all
qed

lemma id_group_bare: "bare_id v \<Longrightarrow> id_group v = Some v"
  by (simp add: id_group_def bare_id_def)

lemma watch_tail_None: "CHR ''='' \<notin> set s \<Longrightarrow> watch_tail s = None"
proof (induction s)
  case Nil
  show ?case by (simp add: after_literal_def)
next
  case (Cons c cs)
  have "\<not> prefix ''v='' (c # cs)"
  proof
    assume "prefix ''v='' (c # cs)"
    then have "set ''v='' \<subseteq> set (c # cs)" by (rule set_mono_prefix)
    then show False using Cons.prems by simp
  qed
  then have "after_literal ''v='' (c # cs) = None"
    unfolding after_literal_def by (simp only: if_False)
  moreover have "watch_tail cs = None" using Cons by simp
  ultimately show ?case by (cases "c = CHR 0x0A") simp_all
qed

lemma no_dot_no_prefix:
  "CHR ''.'' \<notin> set s \<Longrightarrow> CHR ''.'' \<in> set lit \<Longrightarrow> \<not> prefix lit s"
  using set_mono_prefix by fastforce

lemma match_here_None: "CHR ''.'' \<notin> set s \<Longrightarrow> match_here s = None"
  by (simp add: match_here_def watch_alternative_def after_literal_def no_dot_no_prefix)

lemma re_search_None: "CHR ''.'' \<notin> set s \<Longrightarrow> re_search s = None"
  by (induction s) (simp_all add: match_here_None)

lemma search_watch:
  "bare_id v \<Longrightarrow> re_search (''https://www.youtube.com/watch?v='' @ v) = Some v"
  by (simp add: match_here_def watch_alternative_def after_literal_def
      watch_tail_None bare_id_chars id_group_bare)

lemma search_short:
  "bare_id v \<Longrightarrow> re_search (''https://youtu.be/'' @ v) = Some v"
  by (simp add: match_here_def watch_alternative_def after_literal_def id_group_bare)

lemma search_embed:
  "bare_id v \<Longrightarrow> re_search (''https://www.youtube.com/embed/'' @ v) = Some v"
  by (simp add: match_here_def watch_alternative_def after_literal_def id_group_bare)

lemma search_v:
  "bare_id v \<Longrightarrow> re_search (''https://www.youtube.com/v/'' @ v) = Some v"
  by (simp add: match_here_def watch_alternative_def after_literal_def id_group_bare)

lemma search_shorts:
  "bare_id v \<Longrightarrow> re_search (''https://www.youtube.com/shorts/'' @ v) = Some v"
  by (simp add: match_here_def watch_alternative_def after_literal_def id_group_bare)

lemma strip_url: "bare_id v \<Longrightarrow> strip (CHR ''h'' # p @ v) = CHR ''h'' # p @ v"
proof (rule strip_noop)
  assume v: "bare_id v"
  show "CHR ''h'' # p @ v \<noteq> []" by simp
  show "\<not> is_space (hd (CHR ''h'' # p @ v))" by (simp add: is_space_def)
  have "last (CHR ''h'' # p @ v) = last v" using bare_id_chars(1) [OF v] by simp
  then show "\<not> is_space (last (CHR ''h'' # p @ v))" using bare_id_chars(3) [OF v] by simp
qed

lemma strip_bare: "bare_id v \<Longrightarrow> strip v = v"
  by (rule strip_noop) (simp_all add: bare_id_chars)

text \<open>
  Claim C3. For an identifier \<open>v\<close> (eleven characters of \<open>[a-zA-Z0-9_-]\<close>) the extractor
  returns \<open>v\<close> for the five URL shapes and for \<open>v\<close> itself; it raises \<open>ValueError\<close> exactly
  when its input, which it trims first (the specification takes the input as trimmed),
  matches no URL pattern and is not such an identifier; and whatever it returns is such an
  identifier.
\<close>

theorem extract_video_id_spec:
  "(bare_id v \<longrightarrow>
      extract_video_id (''https://www.youtube.com/watch?v='' @ v) = Inr v
    \<and> extract_video_id (''https://youtu.be/'' @ v) = Inr v
    \<and> extract_video_id (''https://www.youtube.com/embed/'' @ v) = Inr v
    \<and> extract_video_id (''https://www.youtube.com/v/'' @ v) = Inr v
    \<and> extract_video_id (''https://www.youtube.com/shorts/'' @ v) = Inr v
    \<and> extract_video_id v = Inr v)
   \<and> (extract_video_id s = Inl (ValueError (strip s))
        \<longleftrightarrow> \<not> spec_url_pattern (strip s) \<and> \<not> bare_id (strip s))
   \<and> ((\<exists>e. extract_video_id s = Inl e)
        \<longleftrightarrow> \<not> spec_url_pattern (strip s) \<and> \<not> bare_id (strip s))
   \<and> (strip s = s \<longrightarrow>
        ((\<exists>e. extract_video_id s = Inl e) \<longleftrightarrow> \<not> spec_url_pattern s \<and> \<not> bare_id s))
   \<and> (extract_video_id s = Inr g \<longrightarrow> bare_id g)"
proof (intro conjI impI)
  assume v: "bare_id v"
  show "extract_video_id (''https://www.youtube.com/watch?v='' @ v) = Inr v"
    using strip_url [OF v, of "''ttps://www.youtube.com/watch?v=''"] search_watch [OF v]
    by (simp add: extract_video_id_def)
  show "extract_video_id (''https://youtu.be/'' @ v) = Inr v"
    using strip_url [OF v, of "''ttps://youtu.be/''"] search_short [OF v]
    by (simp add: extract_video_id_def)
  show "extract_video_id (''https://www.youtube.com/embed/'' @ v) = Inr v"
    using strip_url [OF v, of "''ttps://www.youtube.com/embed/''"] search_embed [OF v]
    by (simp add: extract_video_id_def)
  show "extract_video_id (''https://www.youtube.com/v/'' @ v) = Inr v"
    using strip_url [OF v, of "''ttps://www.youtube.com/v/''"] search_v [OF v]
    by (simp add: extract_video_id_def)
  show "extract_video_id (''https://www.youtube.com/shorts/'' @ v) = Inr v"
    using strip_url [OF v, of "''ttps://www.youtube.com/shorts/''"] search_shorts [OF v]
    by (simp add: extract_video_id_def)
  show "extract_video_id v = Inr v"
    using strip_bare [OF v] re_search_None [of v] bare_id_chars(5) [OF v] v
    by (simp add: extract_video_id_def)
next
  show "extract_video_id s = Inl (ValueError (strip s))
        \<longleftrightarrow> \<not> spec_url_pattern (strip s) \<and> \<not> bare_id (strip s)"
    using re_search_url_pattern [of "strip s"]
    by (auto simp: extract_video_id_def Let_def split: option.splits)
  show "(\<exists>e. extract_video_id s = Inl e)
        \<longleftrightarrow> \<not> spec_url_pattern (strip s) \<and> \<not> bare_id (strip s)"
    using re_search_url_pattern [of "strip s"]
    by (auto simp: extract_video_id_def Let_def split: option.splits)
next
  assume "strip s = s"
  then show "(\<exists>e. extract_video_id s = Inl e) \<longleftrightarrow> \<not> spec_url_pattern s \<and> \<not> bare_id s"
    using re_search_url_pattern [of s]
    by (auto simp: extract_video_id_def Let_def split: option.splits)
next
  assume "extract_video_id s = Inr g"
  then show "bare_id g"
    by (auto simp: extract_video_id_def Let_def re_search_bare split: option.splits if_splits)
qed

theorem extract_video_id_spec_witness:
  "bare_id ''dQw4w9WgXcQ''
   \<and> extract_video_id ''https://www.youtube.com/watch?v=dQw4w9WgXcQ'' = Inr ''dQw4w9WgXcQ''
   \<and> extract_video_id ''https://youtu.be/dQw4w9WgXcQ'' = Inr ''dQw4w9WgXcQ''
   \<and> extract_video_id ''https://www.youtube.com/embed/dQw4w9WgXcQ'' = Inr ''dQw4w9WgXcQ''
   \<and> extract_video_id ''https://www.youtube.com/v/dQw4w9WgXcQ'' = Inr ''dQw4w9WgXcQ''
   \<and> extract_video_id ''https://www.youtube.com/shorts/dQw4w9WgXcQ'' = Inr ''dQw4w9WgXcQ''
   \<and> extract_video_id ''dQw4w9WgXcQ'' = Inr ''dQw4w9WgXcQ''
   \<and> extract_video_id ''not a video'' = Inl (ValueError ''not a video'')
   \<and> \<not> spec_url_pattern ''not a video''"
proof -
  have b: "bare_id ''dQw4w9WgXcQ''" by (simp add: bare_id_def id_char_def)
  have e: "extract_video_id ''not a video'' = Inl (ValueError ''not a video'')"
    by (simp add: extract_video_id_def strip_def is_space_def match_here_def
        watch_alternative_def after_literal_def bare_id_def id_char_def Let_def)
  have s: "strip ''not a video'' = ''not a video''" by (simp add: strip_def is_space_def)
  have u: "extract_video_id ''https://youtu.be/dQw4w9WgXcQ'' = Inr ''dQw4w9WgXcQ''"
    by (simp add: extract_video_id_def strip_def is_space_def match_here_def
        watch_alternative_def after_literal_def id_group_def id_char_def)
  show ?thesis
    using extract_video_id_spec [of "''dQw4w9WgXcQ''" "''not a video''" "''dQw4w9WgXcQ''"]
      extract_video_id_spec [of "''dQw4w9WgXcQ''" "''https://youtu.be/dQw4w9WgXcQ''"
        "''dQw4w9WgXcQ''"] b e s u
    by simp
qed

section \<open>Properties of the caption backends and of the request\<close>

lemma manual_loop_found:
  "\<forall>x \<in> set pre. find_manually_created_transcript tlist [x] = None \<Longrightarrow>
   find_manually_created_transcript tlist [l] = Some t \<Longrightarrow>
   manual_loop tlist (pre @ l # post) sel = (Some t, ''manual'', l)"
  by (induction pre) simp_all

lemma manual_loop_none:
  "\<forall>x \<in> set langs. find_manually_created_transcript tlist [x] = None \<Longrightarrow>
   manual_loop tlist langs sel = sel"
  by (induction langs) simp_all

lemma generated_loop_found:
  "\<forall>x \<in> set pre. find_generated_transcript tlist [x] = None \<Longrightarrow>
   find_generated_transcript tlist [l] = Some t \<Longrightarrow>
   generated_loop tlist (pre @ l # post) sel = (Some t, ''auto-generated'', l)"
  by (induction pre) simp_all

lemma generated_loop_none:
  "\<forall>x \<in> set langs. find_generated_transcript tlist [x] = None \<Longrightarrow>
   generated_loop tlist langs sel = sel"
  by (induction langs) simp_all

lemma find_manual_Some:
  "find_manually_created_transcript tlist [l] = Some t \<longleftrightarrow>
     find (\<lambda>t. \<not> is_generated t \<and> language_code t = l) tlist = Some t"
  by (simp add: find_manually_created_transcript_def split: option.splits)

lemma find_manual_exists:
  "tm \<in> set tlist \<Longrightarrow> \<not> is_generated tm \<Longrightarrow> language_code tm = l \<Longrightarrow>
   \<exists>t. find_manually_created_transcript tlist [l] = Some t \<and> t \<in> set tlist
      \<and> \<not> is_generated t \<and> language_code t = l"
proof -
  assume a: "tm \<in> set tlist" "\<not> is_generated tm" "language_code tm = l"
  then have "find (\<lambda>t. \<not> is_generated t \<and> language_code t = l) tlist \<noteq> None"
    by (auto simp: find_None_iff)
  then obtain t where t: "find (\<lambda>t. \<not> is_generated t \<and> language_code t = l) tlist = Some t"
    by blast
  then have "t \<in> set tlist \<and> \<not> is_generated t \<and> language_code t = l"
    by (auto simp: find_Some_iff)
  with t show ?thesis by (auto simp: find_manual_Some)
qed

lemma get_metadata_via_ytdlp_total: "\<exists>m. get_metadata_via_ytdlp w vid = Inr m"
  by (simp add: get_metadata_via_ytdlp_def split: sum.splits option.splits)

lemma fetch_metadata_calls:
  "snd (fetch_metadata w ps vid) = (if p_include_metadata ps then [MetadataYtdlp] else [])"
  using get_metadata_via_ytdlp_total [of w vid]
  by (auto simp: fetch_metadata_def)

lemma build_markdown_output_prefix: "prefix ''---\<newline>'' (build_markdown_output m t info vid)"
  by (simp add: build_markdown_output_def assemble_output_def MAX_TRANSCRIPT_CHARS_def Let_def)

lemma request_api_ok:
  assumes "extract_video_id (p_url ps) = Inr vid"
    and "get_transcript_via_api w vid (requested_languages ps) = Inr info"
  shows "youtube_get_transcript w ps fs =
    (Inr (build_markdown_output (fst (fetch_metadata w ps vid))
            (format_transcript_text (entries info) (p_include_timestamps ps)) info vid),
     fs, CaptionApi # snd (fetch_metadata w ps vid))"
  using assms
  by (simp add: youtube_get_transcript_def fetch_transcript_def Let_def split: prod.splits)

lemma request_ytdlp_ok:
  assumes "extract_video_id (p_url ps) = Inr vid"
    and "get_transcript_via_api w vid (requested_languages ps) = Inl e1"
    and "get_transcript_via_ytdlp w vid (requested_languages ps) fs = (Inr info, fs1)"
  shows "youtube_get_transcript w ps fs =
    (Inr (build_markdown_output (fst (fetch_metadata w ps vid))
            (format_transcript_text (entries info) (p_include_timestamps ps)) info vid),
     fs1, CaptionApi # CaptionYtdlp # snd (fetch_metadata w ps vid))"
  using assms
  by (simp add: youtube_get_transcript_def fetch_transcript_def Let_def split: prod.splits)

lemma request_failed:
  assumes "extract_video_id (p_url ps) = Inr vid"
    and "get_transcript_via_api w vid (requested_languages ps) = Inl e1"
    and "get_transcript_via_ytdlp w vid (requested_languages ps) fs = (Inl e2, fs1)"
  shows "youtube_get_transcript w ps fs =
    (Inr (error_output vid [''youtube-transcript-api: '' @ str_exc e1, ''yt-dlp: '' @ str_exc e2]),
     fs1, [CaptionApi, CaptionYtdlp])"
  using assms
  by (simp add: youtube_get_transcript_def fetch_transcript_def Let_def split: prod.splits)

lemma error_output_two:
  "error_output vid [a, b] =
     ''Error: Could not retrieve transcript for video '' @ vid @ ''.\<newline>''
     @ ''Attempted methods:\<newline>''
     @ ''  - '' @ a @ ''\<newline>''
     @ ''  - '' @ b @ ''\<newline>\<newline>''
     @ ''Possible causes:\<newline>''
     @ ''  - The video has no captions/subtitles\<newline>''
     @ ''  - The video is private or age-restricted\<newline>''
     @ ''  - The requested languages are not available''"
  by (simp add: error_output_def)

lemma error_output_prefix:
  "prefix ''Error: '' (error_output vid errors) \<and> \<not> prefix ''---\<newline>'' (error_output vid errors)"
  by (simp add: error_output_def)

lemma markdown_not_error: "\<not> prefix ''Error: '' (build_markdown_output m t info vid)"
  using build_markdown_output_prefix [of m t info vid]
  by (auto simp: prefix_def)

lemma extract_ps0: "extract_video_id (p_url ps0) = Inr ''dQw4w9WgXcQ''"
  by (simp add: ps0_def extract_video_id_def strip_def is_space_def match_here_def
      watch_alternative_def after_literal_def id_group_def id_char_def)

lemma langs_ps0: "requested_languages ps0 = [''ja'', ''en'', ''ko'']"
  by (simp add: requested_languages_def ps0_def DEFAULT_LANGUAGES_def)

lemma api_dead: "get_transcript_via_api w_dead vid langs
    = Inl (ExternalError ''Subtitles are disabled for this video'')"
  by (simp add: get_transcript_via_api_def w_dead_def)

lemma ytdlp_dead: "get_transcript_via_ytdlp w_dead vid langs fs
    = (Inl (RuntimeError ''yt-dlp is not installed. Install with: pip install yt-dlp''), fs)"
  by (simp add: get_transcript_via_ytdlp_def w_dead_def)

lemma select_api: "select_transcript [t_ja_manual, t_ja_auto, t_en_auto] [''ja'', ''en'', ''ko'']
   = (Some t_ja_manual, ''manual'', ''ja'')"
  by (simp add: select_transcript_def find_manually_created_transcript_def t_ja_manual_def)

lemma round2_1234: "round2 1.234 = 1.23"
  by (simp add: round2_def py_round_def Let_def)

lemma round2_2: "round2 2 = 2"
  by (simp add: round2_def py_round_def Let_def)

lemma api_ok: "get_transcript_via_api w_api ''dQw4w9WgXcQ'' [''ja'', ''en'', ''ko'']
   = Inr \<lparr>entries = [\<lparr>entry_text = ''konnichiwa'', start = 1.23, duration = 2\<rparr>],
          language = ''ja'', source = ''manual''\<rparr>"
  using round2_1234 round2_2
  by (simp add: get_transcript_via_api_def w_api_def w_dead_def select_api)
     (simp add: t_ja_manual_def rounded_entry_def)

lemma glob_match_sub_path: "glob_match ''dQw4w9WgXcQ'' sub_path"
  by (simp add: glob_match_def sub_path_def suffix_def)








lemma metadata_api_unreachable: "MetadataApi \<notin> set (snd (snd (youtube_get_transcript w ps fs)))"
proof (cases "extract_video_id (p_url ps)")
  case (Inl e)
  then show ?thesis by (simp add: youtube_get_transcript_def)
next
  case (Inr vid)
  let ?langs = "requested_languages ps"
  obtain r fs' where y: "get_transcript_via_ytdlp w vid ?langs fs = (r, fs')"
    by (cases "get_transcript_via_ytdlp w vid ?langs fs") auto
  show ?thesis
  proof (cases "get_transcript_via_api w vid ?langs")
    case api: (Inr info)
    show ?thesis by (simp add: request_api_ok [OF Inr api] fetch_metadata_calls)
  next
    case api: (Inl e1)
    show ?thesis
    proof (cases r)
      case (Inl e2)
      with y have "get_transcript_via_ytdlp w vid ?langs fs = (Inl e2, fs')" by simp
      from request_failed [OF Inr api this] show ?thesis by simp
    next
      case r: (Inr info)
      with y have "get_transcript_via_ytdlp w vid ?langs fs = (Inr info, fs')" by simp
      from request_ytdlp_ok [OF Inr api this] show ?thesis by (simp add: fetch_metadata_calls)
    qed
  qed
qed

lemma scrape_page:
  \<open>get_metadata_via_api w_page ''dQw4w9WgXcQ''
     = Inr ((default_metadata ''dQw4w9WgXcQ'')\<lparr>title := ''Some Talk'', author := ''Some Channel''\<rparr>)\<close>
  by (simp add: get_metadata_via_api_def w_page_def w_api_def w_dead_def watch_url_def Let_def
      str_remove.simps strip_def is_space_def)

lemma api_ok_page: "get_transcript_via_api w_page ''dQw4w9WgXcQ'' [''ja'', ''en'', ''ko'']
   = Inr \<lparr>entries = [\<lparr>entry_text = ''konnichiwa'', start = 1.23, duration = 2\<rparr>],
          language = ''ja'', source = ''manual''\<rparr>"
  using round2_1234 round2_2
  by (simp add: get_transcript_via_api_def w_page_def w_api_def w_dead_def select_api)
     (simp add: t_ja_manual_def rounded_entry_def)

lemma split_nl_no_newline: "CHR 0x0A \<notin> set a \<Longrightarrow> split_nl acc a = [acc @ a]"
  by (induction a arbitrary: acc) auto

lemma split_nl_line:
  "CHR 0x0A \<notin> set a \<Longrightarrow> split_nl acc (a @ CHR 0x0A # rest) = (acc @ a) # split_nl [] rest"
  by (induction a arbitrary: acc) auto

lemma spec_lines_line:
  "CHR 0x0A \<notin> set a \<Longrightarrow> spec_lines (a @ CHR 0x0A # rest) = a # spec_lines rest"
  by (simp add: spec_lines_def split_nl_line)

lemma id_char_no_newline: "id_char c \<Longrightarrow> c \<noteq> CHR 0x0A"
  by (auto simp: id_char_def)

lemma bare_id_no_newline: "bare_id v \<Longrightarrow> CHR 0x0A \<notin> set v"
proof
  assume "bare_id v" and "CHR 0x0A \<in> set v"
  then have "id_char (CHR 0x0A)" by (simp add: bare_id_def list_all_iff)
  then show False using id_char_no_newline by blast
qed

lemma extract_no_newline: "extract_video_id s = Inr v \<Longrightarrow> CHR 0x0A \<notin> set v"
proof -
  assume "extract_video_id s = Inr v"
  then have "bare_id v"
    by (auto simp: extract_video_id_def Let_def re_search_bare split: option.splits if_splits)
  then show ?thesis by (rule bare_id_no_newline)
qed

lemma error_output_lines:
  assumes "CHR 0x0A \<notin> set vid" and "CHR 0x0A \<notin> set a" and "CHR 0x0A \<notin> set b"
  shows "spec_diagnostic_lines (error_output vid [a, b]) = [''  - '' @ a, ''  - '' @ b]"
proof -
  let ?l1 = "''Error: Could not retrieve transcript for video '' @ vid @ ''.''"
  let ?l2 = "''Attempted methods:''"
  let ?tail = "''Possible causes:\<newline>''
     @ ''  - The video has no captions/subtitles\<newline>''
     @ ''  - The video is private or age-restricted\<newline>''
     @ ''  - The requested languages are not available''"
  have e: "error_output vid [a, b] =
      ?l1 @ CHR 0x0A # (?l2 @ CHR 0x0A # ((''  - '' @ a) @ CHR 0x0A # ((''  - '' @ b) @ CHR 0x0A #
        ([] @ CHR 0x0A # ?tail))))"
    by (simp add: error_output_def)
  have n: "CHR 0x0A \<notin> set ?l1" "CHR 0x0A \<notin> set ?l2" "CHR 0x0A \<notin> set (''  - '' @ a)"
    "CHR 0x0A \<notin> set (''  - '' @ b)" "CHR 0x0A \<notin> set ([] :: string)"
    using assms by simp_all
  have "spec_lines (error_output vid [a, b]) =
      ?l1 # ?l2 # (''  - '' @ a) # (''  - '' @ b) # [] # spec_lines ?tail"
    unfolding e
    by (simp only: spec_lines_line [OF n(1)] spec_lines_line [OF n(2)] spec_lines_line [OF n(3)]
        spec_lines_line [OF n(4)] spec_lines_line [OF n(5)])
  then have "drop 2 (spec_lines (error_output vid [a, b])) =
      (''  - '' @ a) # (''  - '' @ b) # [] # spec_lines ?tail"
    by (simp only: drop_Suc_Cons drop_0 numeral_2_eq_2)
  then show ?thesis
    unfolding spec_diagnostic_lines_def by (simp only: takeWhile.simps) simp
qed



text \<open>
  Claim C1. The structured-service backend scans in nested priority: the first language of
  the list with a manual transcript wins; only when no language has one, the first
  language with an auto-generated transcript; only when no language has either, the first
  transcript the service lists, whatever its kind, and none when it lists none. When the
  first language has both a manual and an auto-generated transcript, a manual one is
  selected. The backend then fetches the selected transcript and tags the result with it.
\<close>

theorem select_transcript_priority:
  "(languages = pre @ l # post
      \<and> (\<forall>x \<in> set pre. find_manually_created_transcript tlist [x] = None)
      \<and> find_manually_created_transcript tlist [l] = Some t
      \<longrightarrow> select_transcript tlist languages = (Some t, ''manual'', l))
   \<and> ((\<forall>x \<in> set languages. find_manually_created_transcript tlist [x] = None)
      \<and> languages = pre @ l # post
      \<and> (\<forall>x \<in> set pre. find_generated_transcript tlist [x] = None)
      \<and> find_generated_transcript tlist [l] = Some t
      \<longrightarrow> select_transcript tlist languages = (Some t, ''auto-generated'', l))
   \<and> ((\<forall>x \<in> set languages. find_manually_created_transcript tlist [x] = None
                            \<and> find_generated_transcript tlist [x] = None)
      \<longrightarrow> select_transcript tlist languages =
          (case tlist of
             [] \<Rightarrow> (None, ''unknown'', ''unknown'')
           | t0 # rest \<Rightarrow> (Some t0, if is_generated t0 then ''auto-generated'' else ''manual'',
                          language_code t0)))
   \<and> (tm \<in> set tlist \<and> \<not> is_generated tm \<and> language_code tm = l
      \<and> ta \<in> set tlist \<and> is_generated ta \<and> language_code ta = l
      \<longrightarrow> (\<exists>t'. select_transcript tlist (l # ls) = (Some t', ''manual'', l)
               \<and> t' \<in> set tlist \<and> \<not> is_generated t' \<and> language_code t' = l))
   \<and> (list_transcripts w vid = Inr tlist
      \<and> select_transcript tlist languages = (Some t, src, lang_found)
      \<longrightarrow> get_transcript_via_api w vid languages =
          (case fetch t of
             Inl e \<Rightarrow> Inl e
           | Inr es \<Rightarrow> Inr \<lparr>entries = map rounded_entry es, language = lang_found, source = src\<rparr>))"
proof (intro conjI impI)
  assume "languages = pre @ l # post
      \<and> (\<forall>x \<in> set pre. find_manually_created_transcript tlist [x] = None)
      \<and> find_manually_created_transcript tlist [l] = Some t"
  then show "select_transcript tlist languages = (Some t, ''manual'', l)"
    by (simp add: select_transcript_def manual_loop_found)
next
  assume a: "(\<forall>x \<in> set languages. find_manually_created_transcript tlist [x] = None)
      \<and> languages = pre @ l # post
      \<and> (\<forall>x \<in> set pre. find_generated_transcript tlist [x] = None)
      \<and> find_generated_transcript tlist [l] = Some t"
  then have "manual_loop tlist languages (None, ''unknown'', ''unknown'') = (None, ''unknown'', ''unknown'')"
    by (simp add: manual_loop_none)
  moreover have "generated_loop tlist languages (None, ''unknown'', ''unknown'')
      = (Some t, ''auto-generated'', l)"
    using a generated_loop_found [of pre tlist l t post] by simp
  ultimately show "select_transcript tlist languages = (Some t, ''auto-generated'', l)"
    by (simp add: select_transcript_def)
next
  assume a: "\<forall>x \<in> set languages. find_manually_created_transcript tlist [x] = None
                            \<and> find_generated_transcript tlist [x] = None"
  then have "manual_loop tlist languages (None, ''unknown'', ''unknown'') = (None, ''unknown'', ''unknown'')"
    by (simp add: manual_loop_none)
  moreover have "generated_loop tlist languages (None, ''unknown'', ''unknown'')
      = (None, ''unknown'', ''unknown'')"
    using a by (simp add: generated_loop_none)
  ultimately show "select_transcript tlist languages =
          (case tlist of
             [] \<Rightarrow> (None, ''unknown'', ''unknown'')
           | t0 # rest \<Rightarrow> (Some t0, if is_generated t0 then ''auto-generated'' else ''manual'',
                          language_code t0))"
    by (simp add: select_transcript_def last_resort_def)
next
  assume "tm \<in> set tlist \<and> \<not> is_generated tm \<and> language_code tm = l
      \<and> ta \<in> set tlist \<and> is_generated ta \<and> language_code ta = l"
  then obtain t' where "find_manually_created_transcript tlist [l] = Some t'" "t' \<in> set tlist"
      "\<not> is_generated t'" "language_code t' = l"
    using find_manual_exists [of tm tlist l] by blast
  then show "\<exists>t'. select_transcript tlist (l # ls) = (Some t', ''manual'', l)
               \<and> t' \<in> set tlist \<and> \<not> is_generated t' \<and> language_code t' = l"
    by (simp add: select_transcript_def)
next
  assume "list_transcripts w vid = Inr tlist
      \<and> select_transcript tlist languages = (Some t, src, lang_found)"
  then show "get_transcript_via_api w vid languages =
          (case fetch t of
             Inl e \<Rightarrow> Inl e
           | Inr es \<Rightarrow> Inr \<lparr>entries = map rounded_entry es, language = lang_found, source = src\<rparr>)"
    by (simp add: get_transcript_via_api_def)
qed

theorem select_transcript_priority_witness:
  "select_transcript [t_ja_manual, t_ja_auto, t_en_auto] [''ja'', ''en''] = (Some t_ja_manual, ''manual'', ''ja'')
   \<and> select_transcript [t_ja_manual, t_ja_auto, t_en_auto] [''ko'', ''en''] = (Some t_en_auto, ''auto-generated'', ''en'')
   \<and> select_transcript [t_ja_auto, t_ja_manual] [''ko'', ''fr''] = (Some t_ja_auto, ''auto-generated'', ''ja'')
   \<and> select_transcript [] [''ko'', ''fr''] = (None, ''unknown'', ''unknown'')
   \<and> (\<exists>t'. select_transcript [t_ja_auto, t_ja_manual] [''ja'', ''en''] = (Some t', ''manual'', ''ja'')
          \<and> \<not> is_generated t')
   \<and> get_transcript_via_api w_api ''dQw4w9WgXcQ'' [''ja'', ''en'']
       = Inr \<lparr>entries = [\<lparr>entry_text = ''konnichiwa'', start = 1.23, duration = 2\<rparr>],
              language = ''ja'', source = ''manual''\<rparr>"
proof -
  have f: "find_manually_created_transcript [t_ja_manual, t_ja_auto, t_en_auto] [''ja''] = Some t_ja_manual"
    "find_manually_created_transcript [t_ja_manual, t_ja_auto, t_en_auto] [''ko''] = None"
    "find_manually_created_transcript [t_ja_manual, t_ja_auto, t_en_auto] [''en''] = None"
    "find_generated_transcript [t_ja_manual, t_ja_auto, t_en_auto] [''ko''] = None"
    "find_generated_transcript [t_ja_manual, t_ja_auto, t_en_auto] [''en''] = Some t_en_auto"
    "find_manually_created_transcript [t_ja_auto, t_ja_manual] [''ko''] = None"
    "find_manually_created_transcript [t_ja_auto, t_ja_manual] [''fr''] = None"
    "find_generated_transcript [t_ja_auto, t_ja_manual] [''ko''] = None"
    "find_generated_transcript [t_ja_auto, t_ja_manual] [''fr''] = None"
    "find_manually_created_transcript [] [c] = None"
    "find_generated_transcript [] [c] = None" for c
    by (simp_all add: find_manually_created_transcript_def find_generated_transcript_def
        t_ja_manual_def t_ja_auto_def t_en_auto_def)
  have g: "is_generated t_ja_auto" "\<not> is_generated t_ja_manual" "language_code t_ja_auto = ''ja''"
    "language_code t_ja_manual = ''ja''"
    "fetch t_ja_manual = Inr [\<lparr>entry_text = ''konnichiwa'', start = 1.234, duration = 2\<rparr>]"
    by (simp_all add: t_ja_manual_def t_ja_auto_def)
  have w: "list_transcripts w_api ''dQw4w9WgXcQ'' = Inr [t_ja_manual, t_ja_auto, t_en_auto]"
    by (simp add: w_api_def w_dead_def)
  have r: "map rounded_entry [\<lparr>entry_text = ''konnichiwa'', start = 1.234, duration = 2\<rparr>]
      = [\<lparr>entry_text = ''konnichiwa'', start = 1.23, duration = 2\<rparr>]"
    using round2_1234 round2_2 by (simp add: rounded_entry_def)
  have 1: "select_transcript [t_ja_manual, t_ja_auto, t_en_auto] [''ja'', ''en''] = (Some t_ja_manual, ''manual'', ''ja'')"
    using select_transcript_priority [of "[''ja'', ''en'']" "[]" "''ja''" "[''en'']"
        "[t_ja_manual, t_ja_auto, t_en_auto]" t_ja_manual] f
    by simp
  have 2: "select_transcript [t_ja_manual, t_ja_auto, t_en_auto] [''ko'', ''en''] = (Some t_en_auto, ''auto-generated'', ''en'')"
    using select_transcript_priority [of "[''ko'', ''en'']" "[''ko'']" "''en''" "[]"
        "[t_ja_manual, t_ja_auto, t_en_auto]" t_en_auto] f
    by simp
  have 3: "select_transcript [t_ja_auto, t_ja_manual] [''ko'', ''fr''] = (Some t_ja_auto, ''auto-generated'', ''ja'')"
    using select_transcript_priority [of "[''ko'', ''fr'']" "[]" "[]" "[]" "[t_ja_auto, t_ja_manual]"
        t_ja_manual t_ja_manual t_ja_auto "[]" w_api "[]" "[]" "[]"] f g
    by simp
  have 4: "select_transcript [] [''ko'', ''fr''] = (None, ''unknown'', ''unknown'')"
    using select_transcript_priority [of "[''ko'', ''fr'']" "[]" "[]" "[]" "[]"
        t_ja_manual t_ja_manual t_ja_auto "[]" w_api "[]" "[]" "[]"] f
    by simp
  have 5: "\<exists>t'. select_transcript [t_ja_auto, t_ja_manual] [''ja'', ''en''] = (Some t', ''manual'', ''ja'')
          \<and> \<not> is_generated t'"
    using select_transcript_priority [of "[]" "[]" "''ja''" "[]" "[t_ja_auto, t_ja_manual]"
        t_ja_manual t_ja_manual t_ja_auto "[''en'']" w_api "[]" "[]" "[]"] g
    by auto
  have 6: "get_transcript_via_api w_api ''dQw4w9WgXcQ'' [''ja'', ''en'']
       = Inr \<lparr>entries = [\<lparr>entry_text = ''konnichiwa'', start = 1.23, duration = 2\<rparr>],
              language = ''ja'', source = ''manual''\<rparr>"
    using select_transcript_priority [of "[''ja'', ''en'']" "[]" "[]" "[]"
        "[t_ja_manual, t_ja_auto, t_en_auto]"
        t_ja_manual t_ja_manual t_ja_auto "[]" w_api "''dQw4w9WgXcQ''" "''manual''" "''ja''"] w 1 g(5) r
    by simp
  from 1 2 3 4 5 6 show ?thesis by blast
qed

lemma backend_order_core:
  "extract_video_id (p_url ps) = Inr vid \<longrightarrow>
     (\<exists>rest. snd (snd (youtube_get_transcript w ps fs)) = CaptionApi # rest
        \<and> (CaptionYtdlp \<in> set rest \<longleftrightarrow> (\<exists>rest'. rest = CaptionYtdlp # rest'))
        \<and> (CaptionYtdlp \<in> set rest
             \<longleftrightarrow> (\<exists>e1. get_transcript_via_api w vid (requested_languages ps) = Inl e1)))
   \<and> ((\<exists>info. get_transcript_via_api w vid (requested_languages ps) = Inr info)
        \<longrightarrow> CaptionYtdlp \<notin> set (snd (snd (youtube_get_transcript w ps fs))))
   \<and> (get_transcript_via_api w vid (requested_languages ps) = Inl e1
        \<and> fst (get_transcript_via_ytdlp w vid (requested_languages ps) fs) = Inl e2
        \<longrightarrow> fst (youtube_get_transcript w ps fs) =
            Inr (''Error: Could not retrieve transcript for video '' @ vid @ ''.\<newline>''
                 @ ''Attempted methods:\<newline>''
                 @ ''  - youtube-transcript-api: '' @ str_exc e1 @ ''\<newline>''
                 @ ''  - yt-dlp: '' @ str_exc e2 @ ''\<newline>\<newline>''
                 @ ''Possible causes:\<newline>''
                 @ ''  - The video has no captions/subtitles\<newline>''
                 @ ''  - The video is private or age-restricted\<newline>''
                 @ ''  - The requested languages are not available''))
   \<and> ((\<exists>t. fst (youtube_get_transcript w ps fs) = Inr t \<and> prefix ''Error: '' t)
        \<longleftrightarrow> spec_both_failed w vid (requested_languages ps) fs)
   \<and> ((\<exists>t. fst (youtube_get_transcript w ps fs) = Inr t \<and> prefix ''---\<newline>'' t)
        \<longleftrightarrow> \<not> spec_both_failed w vid (requested_languages ps) fs)"
proof
  assume x: "extract_video_id (p_url ps) = Inr vid"
  let ?langs = "requested_languages ps"
  let ?md = "snd (fetch_metadata w ps vid)"
  have md: "CaptionYtdlp \<notin> set ?md" by (simp add: fetch_metadata_calls)
  obtain r fs' where y: "get_transcript_via_ytdlp w vid ?langs fs = (r, fs')"
    by (cases "get_transcript_via_ytdlp w vid ?langs fs") auto
  consider (api) info where "get_transcript_via_api w vid ?langs = Inr info"
    | (ytdlp) e1 info fs1 where "get_transcript_via_api w vid ?langs = Inl e1"
        "get_transcript_via_ytdlp w vid ?langs fs = (Inr info, fs1)"
    | (none) e1 e2 fs1 where "get_transcript_via_api w vid ?langs = Inl e1"
        "get_transcript_via_ytdlp w vid ?langs fs = (Inl e2, fs1)"
    using y by (cases "get_transcript_via_api w vid ?langs"; cases r) auto
  then show "(\<exists>rest. snd (snd (youtube_get_transcript w ps fs)) = CaptionApi # rest
        \<and> (CaptionYtdlp \<in> set rest \<longleftrightarrow> (\<exists>rest'. rest = CaptionYtdlp # rest'))
        \<and> (CaptionYtdlp \<in> set rest
             \<longleftrightarrow> (\<exists>e1. get_transcript_via_api w vid (requested_languages ps) = Inl e1)))
   \<and> ((\<exists>info. get_transcript_via_api w vid (requested_languages ps) = Inr info)
        \<longrightarrow> CaptionYtdlp \<notin> set (snd (snd (youtube_get_transcript w ps fs))))
   \<and> (get_transcript_via_api w vid (requested_languages ps) = Inl e1
        \<and> fst (get_transcript_via_ytdlp w vid (requested_languages ps) fs) = Inl e2
        \<longrightarrow> fst (youtube_get_transcript w ps fs) =
            Inr (''Error: Could not retrieve transcript for video '' @ vid @ ''.\<newline>''
                 @ ''Attempted methods:\<newline>''
                 @ ''  - youtube-transcript-api: '' @ str_exc e1 @ ''\<newline>''
                 @ ''  - yt-dlp: '' @ str_exc e2 @ ''\<newline>\<newline>''
                 @ ''Possible causes:\<newline>''
                 @ ''  - The video has no captions/subtitles\<newline>''
                 @ ''  - The video is private or age-restricted\<newline>''
                 @ ''  - The requested languages are not available''))
   \<and> ((\<exists>t. fst (youtube_get_transcript w ps fs) = Inr t \<and> prefix ''Error: '' t)
        \<longleftrightarrow> spec_both_failed w vid (requested_languages ps) fs)
   \<and> ((\<exists>t. fst (youtube_get_transcript w ps fs) = Inr t \<and> prefix ''---\<newline>'' t)
        \<longleftrightarrow> \<not> spec_both_failed w vid (requested_languages ps) fs)"
  proof cases
    case api
    show ?thesis
      using md build_markdown_output_prefix markdown_not_error
      by (simp add: request_api_ok [OF x api] api spec_both_failed_def fetch_metadata_calls)
  next
    case ytdlp
    show ?thesis
      using md build_markdown_output_prefix markdown_not_error
      by (simp add: request_ytdlp_ok [OF x ytdlp] ytdlp spec_both_failed_def fetch_metadata_calls)
  next
    case none
    show ?thesis
      using error_output_prefix
      by (simp add: request_failed [OF x none] none spec_both_failed_def error_output_two)
  qed
qed

lemma api_multiline: "get_transcript_via_api w_multiline vid langs
    = Inl (ExternalError ''Could not retrieve a transcript\<newline>Subtitles are disabled for this video'')"
  by (simp add: get_transcript_via_api_def w_multiline_def w_dead_def)

lemma ytdlp_multiline: "get_transcript_via_ytdlp w_multiline vid langs fs
    = (Inl (RuntimeError ''yt-dlp is not installed. Install with: pip install yt-dlp''), fs)"
  by (simp add: get_transcript_via_ytdlp_def w_multiline_def w_dead_def)

lemma failed_diagnostic_lines:
  assumes x: "extract_video_id (p_url ps) = Inr vid"
    and a: "get_transcript_via_api w vid (requested_languages ps) = Inl e1"
    and y: "fst (get_transcript_via_ytdlp w vid (requested_languages ps) fs) = Inl e2"
    and n1: "CHR 0x0A \<notin> set (str_exc e1)" and n2: "CHR 0x0A \<notin> set (str_exc e2)"
  shows "\<exists>t. fst (youtube_get_transcript w ps fs) = Inr t
     \<and> spec_diagnostic_lines t =
         [''  - youtube-transcript-api: '' @ str_exc e1, ''  - yt-dlp: '' @ str_exc e2]"
proof -
  obtain fs1 where y': "get_transcript_via_ytdlp w vid (requested_languages ps) fs = (Inl e2, fs1)"
    using y by (cases "get_transcript_via_ytdlp w vid (requested_languages ps) fs") auto
  have o: "fst (youtube_get_transcript w ps fs) =
      Inr (error_output vid [''youtube-transcript-api: '' @ str_exc e1, ''yt-dlp: '' @ str_exc e2])"
    by (simp add: request_failed [OF x a y'])
  have "spec_diagnostic_lines
      (error_output vid [''youtube-transcript-api: '' @ str_exc e1, ''yt-dlp: '' @ str_exc e2])
      = [''  - '' @ ''youtube-transcript-api: '' @ str_exc e1, ''  - '' @ ''yt-dlp: '' @ str_exc e2]"
    using extract_no_newline [OF x] n1 n2 by (intro error_output_lines) simp_all
  then show ?thesis using o by simp
qed

text \<open>
  Claim C2, as stated, fails in one point: a diagnostic is the backend's name followed by
  the message of its exception as it is, so a message of two lines gives two lines for
  that backend. Here two backends were attempted and the error form has three diagnostic
  lines.
\<close>

theorem diagnostic_lines_counterexample:
  "snd (snd (youtube_get_transcript w_multiline ps0 [])) = [CaptionApi, CaptionYtdlp]
   \<and> spec_diagnostic_lines (projr (fst (youtube_get_transcript w_multiline ps0 [])))
       = [''  - youtube-transcript-api: Could not retrieve a transcript'',
          ''Subtitles are disabled for this video'',
          ''  - yt-dlp: yt-dlp is not installed. Install with: pip install yt-dlp'']
   \<and> length (spec_diagnostic_lines (projr (fst (youtube_get_transcript w_multiline ps0 [])))) = 3"
proof -
  have r: "youtube_get_transcript w_multiline ps0 [] =
    (Inr (error_output ''dQw4w9WgXcQ''
       [''youtube-transcript-api: '' @ str_exc (ExternalError
           ''Could not retrieve a transcript\<newline>Subtitles are disabled for this video''),
        ''yt-dlp: '' @ str_exc (RuntimeError
           ''yt-dlp is not installed. Install with: pip install yt-dlp'')]),
     [], [CaptionApi, CaptionYtdlp])"
    by (rule request_failed [OF extract_ps0 api_multiline ytdlp_multiline])
  have l: "spec_diagnostic_lines (projr (fst (youtube_get_transcript w_multiline ps0 [])))
       = [''  - youtube-transcript-api: Could not retrieve a transcript'',
          ''Subtitles are disabled for this video'',
          ''  - yt-dlp: yt-dlp is not installed. Install with: pip install yt-dlp'']"
    unfolding r by (simp add: error_output_def spec_diagnostic_lines_def spec_lines_def)
  show ?thesis using r l by simp
qed

text \<open>
  Claim C2, amended. After the identifier is extracted, the structured-service backend is
  the first backend invoked; the command-line backend is invoked, right after it, exactly
  when the first raised, so never when it succeeded. When both raise, the request returns
  the plain-text error form with the identifier and one diagnostic item per backend, the
  backend's name followed by the message of its exception, and nothing of a transcript;
  when neither message contains a newline these items are exactly the two diagnostic lines
  of the text. The text starts with \<open>Error: \<close> exactly when both backends failed, and
  with the \<open>---\<close> line of the Markdown form exactly when one succeeded.
\<close>

theorem transcript_backend_diagnostics:
  "extract_video_id (p_url ps) = Inr vid \<longrightarrow>
     (\<exists>rest. snd (snd (youtube_get_transcript w ps fs)) = CaptionApi # rest
        \<and> (CaptionYtdlp \<in> set rest \<longleftrightarrow> (\<exists>rest'. rest = CaptionYtdlp # rest'))
        \<and> (CaptionYtdlp \<in> set rest
             \<longleftrightarrow> (\<exists>e1. get_transcript_via_api w vid (requested_languages ps) = Inl e1)))
   \<and> ((\<exists>info. get_transcript_via_api w vid (requested_languages ps) = Inr info)
        \<longrightarrow> CaptionYtdlp \<notin> set (snd (snd (youtube_get_transcript w ps fs))))
   \<and> (get_transcript_via_api w vid (requested_languages ps) = Inl e1
        \<and> fst (get_transcript_via_ytdlp w vid (requested_languages ps) fs) = Inl e2
        \<longrightarrow> fst (youtube_get_transcript w ps fs) =
            Inr (''Error: Could not retrieve transcript for video '' @ vid @ ''.\<newline>''
                 @ ''Attempted methods:\<newline>''
                 @ ''  - youtube-transcript-api: '' @ str_exc e1 @ ''\<newline>''
                 @ ''  - yt-dlp: '' @ str_exc e2 @ ''\<newline>\<newline>''
                 @ ''Possible causes:\<newline>''
                 @ ''  - The video has no captions/subtitles\<newline>''
                 @ ''  - The video is private or age-restricted\<newline>''
                 @ ''  - The requested languages are not available''))
   \<and> ((\<exists>t. fst (youtube_get_transcript w ps fs) = Inr t \<and> prefix ''Error: '' t)
        \<longleftrightarrow> spec_both_failed w vid (requested_languages ps) fs)
   \<and> ((\<exists>t. fst (youtube_get_transcript w ps fs) = Inr t \<and> prefix ''---\<newline>'' t)
        \<longleftrightarrow> \<not> spec_both_failed w vid (requested_languages ps) fs)
   \<and> (get_transcript_via_api w vid (requested_languages ps) = Inl e1
        \<and> fst (get_transcript_via_ytdlp w vid (requested_languages ps) fs) = Inl e2
        \<and> CHR 0x0A \<notin> set (str_exc e1) \<and> CHR 0x0A \<notin> set (str_exc e2)
        \<longrightarrow> (\<exists>t. fst (youtube_get_transcript w ps fs) = Inr t
              \<and> spec_diagnostic_lines t =
                  [''  - youtube-transcript-api: '' @ str_exc e1, ''  - yt-dlp: '' @ str_exc e2]))"
  (is "?X \<longrightarrow> ?A \<and> ?B \<and> ?C \<and> ?D \<and> ?E \<and> ?F")
proof
  assume x: ?X
  have core: "?A \<and> ?B \<and> ?C \<and> ?D \<and> ?E"
    by (rule mp [OF backend_order_core x])
  have new: ?F
    using failed_diagnostic_lines [OF x] by blast
  from core new show "?A \<and> ?B \<and> ?C \<and> ?D \<and> ?E \<and> ?F" by blast
qed

theorem transcript_backend_diagnostics_witness:
  "fst (youtube_get_transcript w_dead ps0 []) =
     Inr (''Error: Could not retrieve transcript for video dQw4w9WgXcQ.\<newline>''
          @ ''Attempted methods:\<newline>''
          @ ''  - youtube-transcript-api: Subtitles are disabled for this video\<newline>''
          @ ''  - yt-dlp: yt-dlp is not installed. Install with: pip install yt-dlp\<newline>\<newline>''
          @ ''Possible causes:\<newline>''
          @ ''  - The video has no captions/subtitles\<newline>''
          @ ''  - The video is private or age-restricted\<newline>''
          @ ''  - The requested languages are not available'')
   \<and> spec_diagnostic_lines (projr (fst (youtube_get_transcript w_dead ps0 [])))
       = [''  - youtube-transcript-api: Subtitles are disabled for this video'',
          ''  - yt-dlp: yt-dlp is not installed. Install with: pip install yt-dlp'']
   \<and> spec_both_failed w_dead ''dQw4w9WgXcQ'' (requested_languages ps0) []
   \<and> \<not> spec_both_failed w_api ''dQw4w9WgXcQ'' (requested_languages ps0) []
   \<and> CaptionYtdlp \<notin> set (snd (snd (youtube_get_transcript w_api ps0 [])))"
proof -
  have d: "spec_both_failed w_dead ''dQw4w9WgXcQ'' (requested_languages ps0) []"
    by (simp add: spec_both_failed_def api_dead ytdlp_dead)
  have a: "\<not> spec_both_failed w_api ''dQw4w9WgXcQ'' (requested_languages ps0) []"
    by (simp add: spec_both_failed_def langs_ps0 api_ok)
  have n: "CHR 0x0A \<notin> set ''Subtitles are disabled for this video''"
    "CHR 0x0A \<notin> set ''yt-dlp is not installed. Install with: pip install yt-dlp''"
    by simp_all
  have 1: "fst (youtube_get_transcript w_dead ps0 []) =
     Inr (''Error: Could not retrieve transcript for video dQw4w9WgXcQ.\<newline>''
          @ ''Attempted methods:\<newline>''
          @ ''  - youtube-transcript-api: Subtitles are disabled for this video\<newline>''
          @ ''  - yt-dlp: yt-dlp is not installed. Install with: pip install yt-dlp\<newline>\<newline>''
          @ ''Possible causes:\<newline>''
          @ ''  - The video has no captions/subtitles\<newline>''
          @ ''  - The video is private or age-restricted\<newline>''
          @ ''  - The requested languages are not available'')
     \<and> spec_diagnostic_lines (projr (fst (youtube_get_transcript w_dead ps0 [])))
       = [''  - youtube-transcript-api: Subtitles are disabled for this video'',
          ''  - yt-dlp: yt-dlp is not installed. Install with: pip install yt-dlp'']"
    using transcript_backend_diagnostics [of ps0 "''dQw4w9WgXcQ''" w_dead "[]"
        "ExternalError ''Subtitles are disabled for this video''"
        "RuntimeError ''yt-dlp is not installed. Install with: pip install yt-dlp''"]
      extract_ps0 n
    by (auto simp: api_dead ytdlp_dead)
  have 2: "CaptionYtdlp \<notin> set (snd (snd (youtube_get_transcript w_api ps0 [])))"
    using transcript_backend_diagnostics [of ps0 "''dQw4w9WgXcQ''" w_api "[]"
        "ExternalError []" "ExternalError []"] extract_ps0
    by (simp add: langs_ps0 api_ok)
  from 1 2 d a show ?thesis by blast
qed

text \<open>
  Claim C6, against the code. \<open>yt-dlp\<close> exits with 0 and leaves a subtitle file that is not
  JSON: \<open>json.load\<close> raises before the loop that removes the files is reached, the backend
  raises, and the file is still there. (When the file parses, it is removed.)
\<close>

theorem ytdlp_parse_failure_leaves_file:
  "get_transcript_via_ytdlp w_bad_subs ''dQw4w9WgXcQ'' [''en''] []
     = (Inl (ExternalError ''Expecting value: line 1 column 1 (char 0)''),
        [(sub_path, Malformed ''Expecting value: line 1 column 1 (char 0)'')])
   \<and> glob (snd (get_transcript_via_ytdlp w_bad_subs ''dQw4w9WgXcQ'' [''en''] [])) ''dQw4w9WgXcQ''
       \<noteq> []
   \<and> snd (get_transcript_via_ytdlp w_subs ''dQw4w9WgXcQ'' [''en''] []) = []"
  using glob_match_sub_path
  by (simp add: get_transcript_via_ytdlp_def w_bad_subs_def w_subs_def w_dead_def glob_def
      subs_args_def os_remove_def)

text \<open>
  Claim C7, against the code. \<open>_get_metadata_via_ytdlp\<close> catches every failure itself and
  returns the placeholders, so the \<open>except\<close> branch of the request that calls the
  page-scrape backend is never taken: no request invokes that backend. With \<open>yt-dlp\<close>
  missing and a watch page from which the scrape would read a title and an author, the
  document still says \<open>Unknown\<close> for both.
\<close>

theorem page_scrape_never_invoked:
  \<open>MetadataApi \<notin> set (snd (snd (youtube_get_transcript w ps fs)))
   \<and> get_metadata_via_api w_page ''dQw4w9WgXcQ''
       = Inr ((default_metadata ''dQw4w9WgXcQ'')\<lparr>title := ''Some Talk'', author := ''Some Channel''\<rparr>)
   \<and> youtube_get_transcript w_page ps0 []
       = (Inr (''---\<newline>title: "Unknown"\<newline>author: "Unknown"\<newline>''
               @ ''url: https://www.youtube.com/watch?v=dQw4w9WgXcQ\<newline>''
               @ ''video_id: dQw4w9WgXcQ\<newline>''
               @ ''transcript_language: ja\<newline>transcript_source: manual\<newline>---\<newline>''
               @ ''\<newline>## Transcript\<newline>\<newline>konnichiwa\<newline>''),
          [], [CaptionApi, MetadataYtdlp])\<close>
proof (intro conjI)
  show "MetadataApi \<notin> set (snd (snd (youtube_get_transcript w ps fs)))"
    by (rule metadata_api_unreachable)
  show \<open>get_metadata_via_api w_page ''dQw4w9WgXcQ''
       = Inr ((default_metadata ''dQw4w9WgXcQ'')\<lparr>title := ''Some Talk'', author := ''Some Channel''\<rparr>)\<close>
    by (rule scrape_page)
  have a: "get_transcript_via_api w_page ''dQw4w9WgXcQ'' (requested_languages ps0)
      = Inr \<lparr>entries = [\<lparr>entry_text = ''konnichiwa'', start = 1.23, duration = 2\<rparr>],
          language = ''ja'', source = ''manual''\<rparr>"
    by (simp add: api_ok_page langs_ps0)
  have m: "fetch_metadata w_page ps0 ''dQw4w9WgXcQ'' = (default_metadata ''dQw4w9WgXcQ'', [MetadataYtdlp])"
    by (simp add: fetch_metadata_def ps0_def get_metadata_via_ytdlp_def w_page_def w_api_def w_dead_def)
  show \<open>youtube_get_transcript w_page ps0 []
       = (Inr (''---\<newline>title: "Unknown"\<newline>author: "Unknown"\<newline>''
               @ ''url: https://www.youtube.com/watch?v=dQw4w9WgXcQ\<newline>''
               @ ''video_id: dQw4w9WgXcQ\<newline>''
               @ ''transcript_language: ja\<newline>transcript_source: manual\<newline>---\<newline>''
               @ ''\<newline>## Transcript\<newline>\<newline>konnichiwa\<newline>''),
          [], [CaptionApi, MetadataYtdlp])\<close>
    unfolding request_api_ok [OF extract_ps0 a] m
    by (simp add: build_markdown_output_def assemble_output_def frontmatter_fields_def
        description_section_def default_metadata_def watch_url_def MAX_TRANSCRIPT_CHARS_def
        format_transcript_text_def strip_def is_space_def ps0_def Let_def)
qed




end
